theory Spec2Isabelle
  imports Complex_Main "HOL-Library.Sublist" "HOL-Library.AList"
begin

section \<open>Python strings\<close>

text \<open>
  A Python \<open>str\<close> is a sequence of Unicode code points, so it is modelled as a list of
  natural numbers. \<open>py\<close> turns an ASCII literal of the source into that representation.
\<close>

type_synonym pystr = "nat list"

definition py :: "string \<Rightarrow> pystr" where
  "py s = map of_char s"

text \<open>The code points for which \<open>str.isspace\<close> holds; \<open>str.strip()\<close> removes exactly these.\<close>

definition isspace :: "nat \<Rightarrow> bool" where
  "isspace c \<longleftrightarrow>
     (0x09 \<le> c \<and> c \<le> 0x0D) \<or> (0x1C \<le> c \<and> c \<le> 0x20) \<or> c = 0x85 \<or> c = 0xA0 \<or>
     c = 0x1680 \<or> (0x2000 \<le> c \<and> c \<le> 0x200A) \<or> c = 0x2028 \<or> c = 0x2029 \<or>
     c = 0x202F \<or> c = 0x205F \<or> c = 0x3000"

definition strip :: "pystr \<Rightarrow> pystr" where
  "strip s = rev (dropWhile isspace (rev (dropWhile isspace s)))"

text \<open>\<open>s.split("\n")\<close>: the pieces between line feeds; never an empty list.\<close>

fun split_nl :: "pystr \<Rightarrow> pystr list" where
  "split_nl [] = [[]]"
| "split_nl (c # cs) =
     (if c = 0x0A then [] # split_nl cs
      else (case split_nl cs of [] \<Rightarrow> [[c]] | l # ls \<Rightarrow> (c # l) # ls))"

text \<open>\<open>needle in hay\<close> on strings: \<open>needle\<close> occurs as a contiguous run of \<open>hay\<close>.\<close>

fun str_in :: "pystr \<Rightarrow> pystr \<Rightarrow> bool" where
  "str_in needle [] = (needle = [])"
| "str_in needle (c # cs) = (prefix needle (c # cs) \<or> str_in needle cs)"

text \<open>
  \<open>str.lower()\<close>. On the letters A to Z it adds 32. Of all other code points only two have
  a lowercase form that contains an ASCII character: U+0130 becomes \<open>i\<close> followed by
  U+0307, and U+212A becomes \<open>k\<close>. Every other code point either stays or moves to
  another code point above U+007F; the model leaves those in place, which does not change
  whether an ASCII keyword occurs in the result.
\<close>

definition lower_cp :: "nat \<Rightarrow> pystr" where
  "lower_cp c =
     (if 0x41 \<le> c \<and> c \<le> 0x5A then [c + 0x20]
      else if c = 0x130 then [0x69, 0x307]
      else if c = 0x212A then [0x6B]
      else [c])"

definition lower :: "pystr \<Rightarrow> pystr" where
  "lower s = concat (map lower_cp s)"


section \<open>Data model\<close>

text \<open>One entry of \<open>st.session_state.conversation\<close>.\<close>

record qa =
  question :: pystr
  answer :: pystr
  sentiment :: pystr

text \<open>The dictionary stored in \<open>st.session_state.candidate_info\<close> (keys as in the source).\<close>

record candidate =
  name :: pystr
  email :: pystr
  phone :: pystr
  experience :: int
  position :: pystr
  location :: pystr
  tech_stack :: pystr

text \<open>The value written under a candidate's email in \<open>candidate_data.json\<close>.\<close>

record candidate_record =
  info :: candidate
  interview :: "qa list"
  completed_date :: pystr

text \<open>
  \<open>st.session_state\<close>. \<open>candidate_info = None\<close> stands for the empty dictionary \<open>{}\<close>.
\<close>

record session_state =
  conversation :: "qa list"
  question_index :: nat
  questions :: "pystr list"
  candidate_info :: "candidate option"
  preferred_language :: pystr
  interview_started :: bool
  current_answer :: pystr

text \<open>The state written by lines 40 to 53 on the first run of the script.\<close>

definition initial_session :: session_state where
  "initial_session =
     \<lparr>conversation = [], question_index = 0, questions = [], candidate_info = None,
      preferred_language = py ''en'', interview_started = False, current_answer = []\<rparr>"

datatype error =
    OSError | UnicodeDecodeError | JSONDecodeError | TypeError | KeyError | AttributeError
  | LLMError | BadRecordShape


section \<open>External services\<close>

text \<open>
  The three services the script calls. \<open>None\<close> means that the call raised. The sentiment
  scorer has no failure path in the source and returns a polarity.
  Every call that reaches a service is recorded as a \<open>call\<close>, in order.
\<close>

record services =
  translator_translate :: "pystr \<Rightarrow> pystr \<Rightarrow> pystr option"
  llm_invoke :: "pystr \<Rightarrow> pystr option"
  textblob_polarity :: "pystr \<Rightarrow> real"

datatype call = CallTranslate pystr pystr | CallLLM pystr | CallSentiment pystr

definition translate_text :: "services \<Rightarrow> pystr \<Rightarrow> pystr \<Rightarrow> pystr \<times> call list" where
  "translate_text sv text target_lang =
     (if target_lang = py ''en'' then (text, [])
      else (case translator_translate sv text target_lang of
              Some translated \<Rightarrow> (translated, [CallTranslate text target_lang])
            | None \<Rightarrow> (text, [CallTranslate text target_lang])))"

definition analyze_sentiment :: "services \<Rightarrow> pystr \<Rightarrow> pystr \<times> call list" where
  "analyze_sentiment sv text =
     (let polarity = textblob_polarity sv text
      in (if polarity > 0 then 0x1F642 # py '' Positive''
          else if polarity < 0 then [0x2639, 0xFE0F] @ py '' Negative''
          else 0x1F610 # py '' Neutral'',
          [CallSentiment text]))"


section \<open>Tech stack validation and question generation\<close>

definition valid_tech_keywords :: "pystr list" where
  "valid_tech_keywords =
     [py ''python'', py ''java'', py ''c++'', py ''tensorflow'', py ''react'',
      py ''node.js'', py ''pandas'', py ''sql'']"

definition validate_tech_stack :: "pystr \<Rightarrow> bool" where
  "validate_tech_stack stack =
     (let stack_lower = lower stack
      in list_ex (\<lambda>tech. str_in tech stack_lower) valid_tech_keywords)"

definition invalid_stack_message :: pystr where
  "invalid_stack_message = py ''Please enter a valid tech stack!''"

definition no_questions_message :: pystr where
  "no_questions_message = py ''Unable to generate questions.''"

definition generation_prompt :: "pystr \<Rightarrow> pystr" where
  "generation_prompt stack =
     py ''Generate 5 interview questions for a candidate skilled in '' @ stack @ py ''.''"

text \<open>The list comprehension of line 94.\<close>

definition response_lines :: "pystr \<Rightarrow> pystr list" where
  "response_lines content = map strip (filter (\<lambda>q. strip q \<noteq> []) (split_nl content))"

text \<open>
  \<open>generate_questions\<close>; the second argument is \<open>st.session_state.preferred_language\<close>.
  An exception of the language model is not caught, so it is the result.
\<close>

definition generate_questions ::
  "services \<Rightarrow> pystr \<Rightarrow> pystr \<Rightarrow> (error + pystr list) \<times> call list" where
  "generate_questions sv lang stack =
     (if \<not> validate_tech_stack stack then
        (let (t, cs) = translate_text sv invalid_stack_message lang in (Inr [t], cs))
      else
        (let prompt = generation_prompt stack
         in (case llm_invoke sv prompt of
               None \<Rightarrow> (Inl LLMError, [CallLLM prompt])
             | Some content \<Rightarrow>
                 (let qs = response_lines content
                  in if qs \<noteq> [] then (Inr (take 5 qs), [CallLLM prompt])
                     else (let (t, cs) = translate_text sv no_questions_message lang
                           in (Inr [t], CallLLM prompt # cs))))))"


section \<open>The record store\<close>

text \<open>
  A JSON object is a Python \<open>dict\<close>: an association list in insertion order. The values
  in the store are candidate records as this script writes them, or anything else
  (\<open>Foreign\<close>, with whether the value has the four fields that the admin listing reads:
  \<open>info.name\<close>, \<open>info.position\<close>, \<open>info.tech_stack\<close> and \<open>completed_date\<close>). A JSON value
  that is not an object is \<open>JOther\<close>, with its truth value in Python.
\<close>

datatype entry = Rec candidate_record | Foreign bool

datatype json = JObject "(pystr \<times> entry) list" | JOther bool

text \<open>
  What is at the path \<open>candidate_data.json\<close>:
  \<^item> \<open>Missing\<close>: no file;
  \<^item> \<open>Inaccessible\<close>: a file, but \<open>os.stat\<close> on the path fails (for instance a directory on
    the path may not be searched);
  \<^item> \<open>Unreadable\<close>: a file that \<open>os.stat\<close> finds and that cannot be opened for reading;
  \<^item> \<open>Undecodable\<close>: a file whose bytes are not text in the encoding \<open>open\<close> uses;
  \<^item> \<open>Unparsable\<close>: a text that is not JSON;
  \<^item> \<open>Document\<close>: the text of a JSON value.

  \<open>writable\<close> says whether \<open>open(DATA_FILE, "w")\<close> succeeds. The encoding as text is not
  modelled: \<open>json.load\<close> of what \<open>json.dump\<close> wrote gives the same dictionary.
\<close>

datatype stored_file =
  Missing | Inaccessible | Unreadable | Undecodable | Unparsable | Document json

record fs =
  data_file :: stored_file
  writable :: bool

text \<open>Whether there is a file at the path at all.\<close>

fun file_exists :: "stored_file \<Rightarrow> bool" where
  "file_exists Missing = False"
| "file_exists f = True"

text \<open>
  \<open>os.path.exists\<close>: whether \<open>os.stat\<close> on the path succeeds. It is false when there is no
  file, and also for a file on which \<open>os.stat\<close> fails.
\<close>

fun os_path_exists :: "stored_file \<Rightarrow> bool" where
  "os_path_exists Missing = False"
| "os_path_exists Inaccessible = False"
| "os_path_exists f = True"

text \<open>\<open>with open(DATA_FILE, "r") as f: json.load(f)\<close>: open, decode, parse.\<close>

fun open_and_json_load :: "stored_file \<Rightarrow> error + json" where
  "open_and_json_load Missing = Inl OSError"
| "open_and_json_load Inaccessible = Inl OSError"
| "open_and_json_load Unreadable = Inl OSError"
| "open_and_json_load Undecodable = Inl UnicodeDecodeError"
| "open_and_json_load Unparsable = Inl JSONDecodeError"
| "open_and_json_load (Document j) = Inr j"

definition load_data :: "fs \<Rightarrow> error + json" where
  "load_data d =
     (if os_path_exists (data_file d) then open_and_json_load (data_file d)
      else Inr (JObject []))"

definition save_data :: "(pystr \<times> entry) list \<Rightarrow> fs \<Rightarrow> error + fs" where
  "save_data data d =
     (if writable d then Inr (d\<lparr>data_file := Document (JObject data)\<rparr>) else Inl OSError)"


section \<open>One run of the script\<close>

text \<open>
  Streamlit runs the script from top to bottom on every interaction. What the widgets
  return in that run is the input; \<open>answer_widget = None\<close> means that the text area of the
  current question has not been edited, so that it returns its \<open>value\<close> argument.
\<close>

datatype lang_choice = English | Telugu | Hindi | Tamil

fun lang_options :: "lang_choice \<Rightarrow> pystr" where
  "lang_options English = py ''en''"
| "lang_options Telugu = py ''te''"
| "lang_options Hindi = py ''hi''"
| "lang_options Tamil = py ''ta''"

record ui_inputs =
  selected_lang :: lang_choice
  full_name_input :: pystr
  email_input :: pystr
  phone_input :: pystr
  experience_input :: int
  position_input :: pystr
  location_input :: pystr
  tech_stack_input :: pystr
  submit_info :: bool
  answer_widget :: "pystr option"
  submit_answer :: bool
  start_new :: bool
  admin_view :: bool

text \<open>The bounds given to \<open>st.number_input\<close> for the years of experience (line 104).\<close>

definition experience_min_value :: int where
  "experience_min_value = 0"

definition experience_max_value :: int where
  "experience_max_value = 50"

text \<open>
  \<open>st.number_input\<close> belongs to Streamlit, not to this repository: it returns a value
  between its \<open>min_value\<close> and \<open>max_value\<close>.
\<close>

definition number_input_contract :: "ui_inputs \<Rightarrow> bool" where
  "number_input_contract inp \<longleftrightarrow>
     experience_min_value \<le> experience_input inp \<and> experience_input inp \<le> experience_max_value"

datatype ui_msg = Warning pystr | Success pystr

text \<open>
  How a block of the script ends: it falls through to the next block, \<open>st.rerun()\<close> stops
  the run and asks for another one, or an exception stops the run.
\<close>

datatype outcome = Continue | Rerun | Raised error

text \<open>
  What a run reads and writes: the session state, the file system, and, in order, the
  service calls made and the messages shown so far.
\<close>

record world =
  session :: session_state
  disk :: fs
  calls :: "call list"
  shown :: "ui_msg list"

definition localize :: "services \<Rightarrow> pystr \<Rightarrow> world \<Rightarrow> pystr \<times> world" where
  "localize sv text w =
     (let (t, cs) = translate_text sv text (preferred_language (session w))
      in (t, w\<lparr>calls := calls w @ cs\<rparr>))"

text \<open>Texts that are translated only to be displayed.\<close>

definition render :: "services \<Rightarrow> pystr list \<Rightarrow> world \<Rightarrow> world" where
  "render sv texts w = foldl (\<lambda>w' t. snd (localize sv t w')) w texts"

definition warning :: "services \<Rightarrow> pystr \<Rightarrow> world \<Rightarrow> world" where
  "warning sv text w =
     (let (t, w') = localize sv text w in w'\<lparr>shown := shown w' @ [Warning t]\<rparr>)"

definition success :: "services \<Rightarrow> pystr \<Rightarrow> world \<Rightarrow> world" where
  "success sv text w =
     (let (t, w') = localize sv text w in w'\<lparr>shown := shown w' @ [Success t]\<rparr>)"

text \<open>Lines 56 to 58.\<close>

definition select_language :: "ui_inputs \<Rightarrow> world \<Rightarrow> outcome \<times> world" where
  "select_language inp w =
     (Continue, w\<lparr>session := (session w)\<lparr>preferred_language := lang_options (selected_lang inp)\<rparr>\<rparr>)"

definition form_labels :: "pystr list" where
  "form_labels =
     [py ''Candidate Information'', py ''Full Name'', py ''Email'', py ''Phone Number'',
      py ''Years of Experience'', py ''Desired Position'', py ''Current Location'',
      py ''Tech Stack (e.g., Python, TensorFlow, PostgreSQL)'', py ''Proceed to Interview'']"

definition required_fields_message :: pystr where
  "required_fields_message = py ''Please fill in all required fields.''"

definition thank_you_message :: "pystr \<Rightarrow> pystr" where
  "thank_you_message full_name =
     py ''Thank you, '' @ full_name @ py ''! Let'' @ [0x27] @ py ''s start your interview.''"

text \<open>The dictionary built from the form fields, lines 115 to 123.\<close>

definition form_profile :: "ui_inputs \<Rightarrow> candidate" where
  "form_profile inp =
     \<lparr>name = full_name_input inp, email = email_input inp, phone = phone_input inp,
      experience = experience_input inp, position = position_input inp,
      location = location_input inp, tech_stack = tech_stack_input inp\<rparr>"

text \<open>Step 1, lines 98 to 130.\<close>

definition candidate_info_form :: "services \<Rightarrow> ui_inputs \<Rightarrow> world \<Rightarrow> outcome \<times> world" where
  "candidate_info_form sv inp w =
     (if interview_started (session w) then (Continue, w)
      else
        (let w1 = render sv form_labels w
         in if \<not> submit_info inp then (Continue, w1)
            else if full_name_input inp = [] \<or> email_input inp = [] \<or> phone_input inp = []
                    \<or> tech_stack_input inp = []
            then (Continue, warning sv required_fields_message w1)
            else
              (let w2 = w1\<lparr>session := (session w1)\<lparr>candidate_info :=
                          Some (form_profile inp)\<rparr>\<rparr>;
                   (r, cs) = generate_questions sv (preferred_language (session w2))
                               (tech_stack_input inp);
                   w3 = w2\<lparr>calls := calls w2 @ cs\<rparr>
               in (case r of
                     Inl e \<Rightarrow> (Raised e, w3)
                   | Inr qs \<Rightarrow>
                       (let w4 = w3\<lparr>session := (session w3)
                                   \<lparr>questions := qs, question_index := 0, conversation := [],
                                    interview_started := True, current_answer := []\<rparr>\<rparr>
                        in (Rerun, success sv (thank_you_message (full_name_input inp)) w4))))))"

definition empty_answer_message :: pystr where
  "empty_answer_message = py ''Please enter a valid answer before proceeding.''"

text \<open>
  \<open>st.text_area(..., value=v, key=f"answer_{index}")\<close>: what the user typed into the box
  of this question, or \<open>v\<close> when the box has not been edited.
\<close>

definition text_area :: "ui_inputs \<Rightarrow> pystr \<Rightarrow> pystr" where
  "text_area inp v = (case answer_widget inp of None \<Rightarrow> v | Some typed \<Rightarrow> typed)"

text \<open>Lines 137 to 164: the question at \<open>index\<close>, which is below \<open>len(questions)\<close>.\<close>

definition ask_question :: "services \<Rightarrow> ui_inputs \<Rightarrow> nat \<Rightarrow> world \<Rightarrow> outcome \<times> world" where
  "ask_question sv inp index w =
     (let w1 = render sv [questions (session w) ! index, py ''Question'', py ''Your Answer:''] w;
          w2 = w1\<lparr>session := (session w1)\<lparr>current_answer :=
                  text_area inp (current_answer (session w1))\<rparr>\<rparr>;
          w3 = render sv [py ''Submit Answer''] w2
      in if \<not> submit_answer inp then (Continue, w3)
         else if strip (current_answer (session w3)) = []
         then (Continue, warning sv empty_answer_message w3)
         else
           (let (translated_answer, cs1) =
                  translate_text sv (current_answer (session w3)) (py ''en'');
                (label, cs2) = analyze_sentiment sv translated_answer;
                s3 = session w3
            in (Rerun,
                w3\<lparr>calls := calls w3 @ cs1 @ cs2,
                   session := s3
                     \<lparr>conversation := conversation s3 @
                        [\<lparr>question = questions s3 ! index, answer = translated_answer,
                          sentiment = label\<rparr>],
                      question_index := question_index s3 + 1,
                      current_answer := []\<rparr>\<rparr>)))"

definition completed_message :: pystr where
  "completed_message =
     0x2705 # py '' Interview completed! Your responses have been saved. We will contact you for further steps.''"

definition fixed_completed_date :: pystr where
  "fixed_completed_date = py ''March 16, 2025''"

text \<open>
  Lines 167 to 174: read the whole store, set the entry under the candidate's email,
  write the whole store back.
\<close>

definition save_interview :: "session_state \<Rightarrow> fs \<Rightarrow> error + fs" where
  "save_interview s d =
     (case load_data d of
        Inl e \<Rightarrow> Inl e
      | Inr candidate_data \<Rightarrow>
          (case candidate_info s of
             None \<Rightarrow> Inl KeyError
           | Some ci \<Rightarrow>
               (case candidate_data of
                  JOther _ \<Rightarrow> Inl TypeError
                | JObject m \<Rightarrow>
                    save_data
                      (AList.update (email ci)
                         (Rec \<lparr>info = ci, interview = conversation s,
                               completed_date = fixed_completed_date\<rparr>) m)
                      d)))"

text \<open>Lines 166 to 193: save the interview, show the summary, offer a restart.\<close>

definition complete_interview :: "services \<Rightarrow> ui_inputs \<Rightarrow> world \<Rightarrow> outcome \<times> world" where
  "complete_interview sv inp w =
     (case save_interview (session w) (disk w) of
        Inl e \<Rightarrow> (Raised e, w)
      | Inr d \<Rightarrow>
          (let w1 = success sv completed_message (w\<lparr>disk := d\<rparr>);
               w2 = render sv [py ''Your Responses:''] w1;
               w3 = render sv
                      (concat (map (\<lambda>e. [question e, answer e]) (conversation (session w2))))
                      w2;
               w4 = render sv [py ''Start New Interview''] w3
           in if start_new inp
              then (Rerun, w4\<lparr>session := (session w4)
                      \<lparr>interview_started := False, conversation := [], questions := [],
                       question_index := 0, candidate_info := None, current_answer := []\<rparr>\<rparr>)
              else (Continue, w4)))"

text \<open>Step 2, lines 133 to 193.\<close>

definition interview_process :: "services \<Rightarrow> ui_inputs \<Rightarrow> world \<Rightarrow> outcome \<times> world" where
  "interview_process sv inp w =
     (if interview_started (session w) \<and> questions (session w) \<noteq> [] then
        (let index = question_index (session w)
         in if index < length (questions (session w)) then ask_question sv inp index w
            else complete_interview sv inp w)
      else (Continue, w))"

text \<open>Whether lines 201 to 204 can read their four fields from an entry.\<close>

fun listable :: "pystr \<times> entry \<Rightarrow> bool" where
  "listable (k, Rec r) = True"
| "listable (k, Foreign has_fields) = has_fields"

text \<open>
  Lines 196 to 207. Reading a field that an entry does not have raises (\<open>KeyError\<close> or
  \<open>TypeError\<close>, by the shape of the value; here \<open>BadRecordShape\<close>).
\<close>

definition admin_listing :: "services \<Rightarrow> ui_inputs \<Rightarrow> world \<Rightarrow> outcome \<times> world" where
  "admin_listing sv inp w =
     (let w1 = render sv [py ''Show all saved candidates (Admin View)''] w
      in if \<not> admin_view inp then (Continue, w1)
         else
           (case load_data (disk w1) of
              Inl e \<Rightarrow> (Raised e, w1)
            | Inr (JObject m) \<Rightarrow>
                (if m \<noteq> [] then
                   (if list_all listable m then Continue else Raised BadRecordShape,
                    render sv [py ''Saved Candidate Data:''] w1)
                 else (Continue, render sv [py ''No candidate data available yet.''] w1))
            | Inr (JOther truthy) \<Rightarrow>
                (if truthy then (Raised AttributeError, render sv [py ''Saved Candidate Data:''] w1)
                 else (Continue, render sv [py ''No candidate data available yet.''] w1))))"

text \<open>A block runs only if the blocks before it fell through.\<close>

definition and_then ::
  "(world \<Rightarrow> outcome \<times> world) \<Rightarrow> (world \<Rightarrow> outcome \<times> world) \<Rightarrow> world \<Rightarrow> outcome \<times> world" where
  "and_then f g w = (case f w of (Continue, w') \<Rightarrow> g w' | r \<Rightarrow> r)"

definition script :: "services \<Rightarrow> ui_inputs \<Rightarrow> world \<Rightarrow> outcome \<times> world" where
  "script sv inp =
     and_then (select_language inp)
       (and_then (candidate_info_form sv inp)
          (and_then (interview_process sv inp) (admin_listing sv inp)))"

text \<open>
  After \<open>st.rerun()\<close> the script runs again at once: no button is pressed in that run, and
  the text area of the question now shown has not been edited.
\<close>

definition after_rerun :: "ui_inputs \<Rightarrow> ui_inputs" where
  "after_rerun inp =
     inp\<lparr>submit_info := False, answer_widget := None, submit_answer := False, start_new := False\<rparr>"

text \<open>
  One interaction of the user: the run it triggers and, if that run asks for it, the
  run that follows. Calls and messages are those of this interaction.
\<close>

definition interact :: "services \<Rightarrow> ui_inputs \<Rightarrow> session_state \<times> fs \<Rightarrow> outcome \<times> world" where
  "interact sv inp sd =
     (case script sv inp \<lparr>session = fst sd, disk = snd sd, calls = [], shown = []\<rparr> of
        (Rerun, w) \<Rightarrow> script sv (after_rerun inp) w
      | r \<Rightarrow> r)"

definition after_interaction :: "services \<Rightarrow> ui_inputs \<Rightarrow> session_state \<times> fs \<Rightarrow> session_state \<times> fs" where
  "after_interaction sv inp sd =
     (let w = snd (interact sv inp sd) in (session w, disk w))"

text \<open>A browser session: the first run creates the session state, then the user interacts.\<close>

definition run_session :: "services \<Rightarrow> fs \<Rightarrow> ui_inputs list \<Rightarrow> session_state \<times> fs" where
  "run_session sv d inps = foldl (\<lambda>sd inp. after_interaction sv inp sd) (initial_session, d) inps"

text \<open>Which of the screens of steps 1 and 2 the script shows for a session state.\<close>

datatype phase = INTAKE | INTERVIEWING | COMPLETE | NO_SCREEN

definition phase_of :: "session_state \<Rightarrow> phase" where
  "phase_of s =
     (if \<not> interview_started s then INTAKE
      else if questions s = [] then NO_SCREEN
      else if question_index s < length (questions s) then INTERVIEWING
      else COMPLETE)"


section \<open>Reference definitions and example values\<close>

text \<open>
  The parser of the generator's response as the specification words it: split the raw
  response on line breaks, trim each line, discard the blank ones, keep the first five.
\<close>

definition spec_questions :: "pystr \<Rightarrow> pystr list" where
  "spec_questions raw = take 5 (filter (\<lambda>l. l \<noteq> []) (map strip (split_nl raw)))"

text \<open>
  Services used in the examples: a translator that always raises, a language model that
  answers with two questions among blank lines, a neutral sentiment scorer.
\<close>

definition two_question_response :: pystr where
  "two_question_response = py ''Q1?'' @ [0x0A, 0x0A, 0x20] @ py ''Q2?  '' @ [0x0A]"

definition failing_translator :: services where
  "failing_translator =
     \<lparr>translator_translate = (\<lambda>text dest. None),
      llm_invoke = (\<lambda>prompt. Some two_question_response),
      textblob_polarity = (\<lambda>text. 0)\<rparr>"


text \<open>No file yet, in a directory where the script may write.\<close>

definition no_file :: fs where
  "no_file = \<lparr>data_file = Missing, writable = True\<rparr>"

definition example_candidate :: candidate where
  "example_candidate =
     \<lparr>name = py ''Alice'', email = py ''a@x.com'', phone = py ''123'', experience = 3,
      position = [], location = [], tech_stack = py ''I like cooking''\<rparr>"

text \<open>A visit with Telugu selected in which nothing is typed or pressed.\<close>

definition idle_visit :: ui_inputs where
  "idle_visit =
     \<lparr>selected_lang = Telugu, full_name_input = [], email_input = [], phone_input = [],
      experience_input = 0, position_input = [], location_input = [], tech_stack_input = [],
      submit_info = False, answer_widget = None, submit_answer = False, start_new = False,
      admin_view = False\<rparr>"

definition cooking_form :: ui_inputs where
  "cooking_form =
     idle_visit
       \<lparr>full_name_input := py ''Alice'', email_input := py ''a@x.com'',
        phone_input := py ''123'', experience_input := 3,
        tech_stack_input := py ''I like cooking'', submit_info := True\<rparr>"

definition answer_yes :: ui_inputs where
  "answer_yes = idle_visit\<lparr>answer_widget := Some (py ''yes''), submit_answer := True\<rparr>"

definition answer_blank :: ui_inputs where
  "answer_blank = idle_visit\<lparr>answer_widget := Some (py ''  ''), submit_answer := True\<rparr>"

text \<open>The session after the form of \<open>cooking_form\<close>, and after its one answer.\<close>

definition asking_session :: session_state where
  "asking_session =
     \<lparr>conversation = [], question_index = 0, questions = [invalid_stack_message],
      candidate_info = Some example_candidate, preferred_language = py ''te'',
      interview_started = True, current_answer = []\<rparr>"

definition finished_session :: session_state where
  "finished_session =
     asking_session
       \<lparr>conversation := [\<lparr>question = invalid_stack_message, answer = py ''yes'',
                           sentiment = 0x1F610 # py '' Neutral''\<rparr>],
        question_index := 1\<rparr>"


section \<open>Auxiliary notions\<close>

text \<open>The translator calls made to display a list of texts in a language.\<close>

definition display_calls :: "services \<Rightarrow> pystr \<Rightarrow> pystr list \<Rightarrow> call list" where
  "display_calls sv lang texts = concat (map (\<lambda>t. snd (translate_text sv t lang)) texts)"

text \<open>
  The texts of the admin block (lines 196 to 207), and the fixed texts that a run displays
  when it rejects a blank answer: the labels of lines 139 to 152 and those of the admin
  block.
\<close>

definition admin_texts :: "pystr list" where
  "admin_texts =
     [py ''Show all saved candidates (Admin View)'', py ''Saved Candidate Data:'',
      py ''No candidate data available yet.'']"

definition blank_submit_texts :: "pystr list" where
  "blank_submit_texts =
     [py ''Question'', py ''Your Answer:'', py ''Submit Answer'', empty_answer_message] @
     admin_texts"

text \<open>The invariant of the session state.\<close>

definition session_inv :: "session_state \<Rightarrow> bool" where
  "session_inv s \<longleftrightarrow>
     length (conversation s) = question_index s \<and>
     question_index s \<le> length (questions s) \<and>
     (interview_started s \<longleftrightarrow> questions s \<noteq> [])"

text \<open>A run in which no button is pressed and the answer box is untouched.\<close>

definition idle :: "ui_inputs \<Rightarrow> bool" where
  "idle inp \<longleftrightarrow>
     \<not> submit_info inp \<and> \<not> submit_answer inp \<and> \<not> start_new inp \<and> answer_widget inp = None"


text \<open>The entry that lines 169 to 173 build for a session.\<close>

definition stored_record :: "session_state \<Rightarrow> candidate \<Rightarrow> entry" where
  "stored_record s ci =
     Rec \<lparr>info = ci, interview = conversation s, completed_date = fixed_completed_date\<rparr>"

text \<open>The range of the years of experience, on a profile, a stored entry, a file, a state.\<close>

definition experience_ok :: "candidate \<Rightarrow> bool" where
  "experience_ok ci \<longleftrightarrow> 0 \<le> experience ci \<and> experience ci \<le> 50"

fun entry_ok :: "pystr \<times> entry \<Rightarrow> bool" where
  "entry_ok (k, Rec r) = experience_ok (info r)"
| "entry_ok (k, Foreign has_fields) = True"

fun file_ok :: "stored_file \<Rightarrow> bool" where
  "file_ok (Document (JObject m)) = list_all entry_ok m"
| "file_ok other = True"

definition world_ok :: "world \<Rightarrow> bool" where
  "world_ok w \<longleftrightarrow>
     (case candidate_info (session w) of None \<Rightarrow> True | Some ci \<Rightarrow> experience_ok ci) \<and>
     file_ok (data_file (disk w))"

definition state_ok :: "session_state \<times> fs \<Rightarrow> bool" where
  "state_ok sd \<longleftrightarrow> world_ok \<lparr>session = fst sd, disk = snd sd, calls = [], shown = []\<rparr>"


text \<open>The session after an answer has been accepted (lines 154 to 163).\<close>

definition answered :: "services \<Rightarrow> ui_inputs \<Rightarrow> session_state \<Rightarrow> session_state" where
  "answered sv inp s =
     s\<lparr>preferred_language := lang_options (selected_lang inp),
       conversation := conversation s @
         [\<lparr>question = questions s ! question_index s,
           answer = text_area inp (current_answer s),
           sentiment = fst (analyze_sentiment sv (text_area inp (current_answer s)))\<rparr>],
       question_index := question_index s + 1,
       current_answer := []\<rparr>"


section \<open>Strings and the response parser\<close>

lemma str_in_sublist: "str_in needle hay \<longleftrightarrow> sublist needle hay"
  by (induction hay) (auto simp: sublist_Cons_right)

lemma response_lines_spec: "take 5 (response_lines raw) = spec_questions raw"
  by (simp add: response_lines_def spec_questions_def filter_map comp_def)


section \<open>The localization adapter\<close>

text \<open>
  C8. \<open>translate_text\<close> returns the text unchanged and calls no service when the target
  language is \<open>en\<close>, and returns the text unchanged when the translator raises.
\<close>

theorem translate_text_passthrough:
  "translate_text sv text (py ''en'') = (text, []) \<and>
   (translator_translate sv text target_lang = None \<longrightarrow>
      fst (translate_text sv text target_lang) = text)"
  by (simp add: translate_text_def)

theorem translate_text_passthrough_witness:
  "translator_translate failing_translator (py ''Email'') (py ''te'') = None \<and>
   fst (translate_text failing_translator (py ''Email'') (py ''te'')) = py ''Email''"
  using translate_text_passthrough [of failing_translator "py ''Email''" "py ''te''"]
  by (simp add: failing_translator_def)


section \<open>Loading the store\<close>

lemma load_data_error_iff:
  "(\<exists>e. load_data d = Inl e) \<longleftrightarrow>
     os_path_exists (data_file d) \<and> (\<forall>j. data_file d \<noteq> Document j)"
  by (cases "data_file d") (simp_all add: load_data_def)

lemma load_data_empty_iff:
  "load_data d = Inr (JObject []) \<longleftrightarrow>
     \<not> os_path_exists (data_file d) \<or> data_file d = Document (JObject [])"
  by (cases "data_file d") (simp_all add: load_data_def)

text \<open>
  C7, as amended. \<open>load_data\<close> returns the empty mapping whenever \<open>os.path.exists\<close> is
  false, in particular when there is no file. When \<open>os.path.exists\<close> is true, it returns
  what the file holds, and fails with the error of \<open>open\<close> or \<open>json.load\<close> exactly when the
  file cannot be opened, decoded or parsed; it then never returns the empty mapping, which
  it returns only for a path that \<open>os.path.exists\<close> does not find or a file that holds the
  empty object.
\<close>

theorem load_data_guarded:
  "(\<not> file_exists (data_file d) \<longrightarrow> load_data d = Inr (JObject [])) \<and>
   (\<not> os_path_exists (data_file d) \<longrightarrow> load_data d = Inr (JObject [])) \<and>
   (os_path_exists (data_file d) \<longrightarrow>
      file_exists (data_file d) \<and> load_data d = open_and_json_load (data_file d)) \<and>
   ((\<exists>e. load_data d = Inl e) \<longleftrightarrow>
      os_path_exists (data_file d) \<and> (\<forall>j. data_file d \<noteq> Document j)) \<and>
   (load_data d = Inr (JObject []) \<longleftrightarrow>
      \<not> os_path_exists (data_file d) \<or> data_file d = Document (JObject []))"
proof -
  have "\<not> file_exists (data_file d) \<longrightarrow> load_data d = Inr (JObject [])"
    by (cases "data_file d") (simp_all add: load_data_def)
  moreover have "\<not> os_path_exists (data_file d) \<longrightarrow> load_data d = Inr (JObject [])"
    by (simp add: load_data_def)
  moreover have "os_path_exists (data_file d) \<longrightarrow>
      file_exists (data_file d) \<and> load_data d = open_and_json_load (data_file d)"
    by (cases "data_file d") (simp_all add: load_data_def)
  ultimately show ?thesis
    using load_data_error_iff [of d] load_data_empty_iff [of d] by blast
qed

theorem load_data_guarded_witness:
  "os_path_exists (data_file \<lparr>data_file = Unparsable, writable = True\<rparr>) \<and>
   file_exists (data_file \<lparr>data_file = Unparsable, writable = True\<rparr>) \<and>
   load_data \<lparr>data_file = Unparsable, writable = True\<rparr> = Inl JSONDecodeError \<and>
   \<not> file_exists (data_file no_file) \<and> load_data no_file = Inr (JObject [])"
proof -
  have a: "os_path_exists (data_file \<lparr>data_file = Unparsable, writable = True\<rparr>)" by simp
  have b: "\<not> file_exists (data_file no_file)" by (simp add: no_file_def)
  from load_data_guarded [of "\<lparr>data_file = Unparsable, writable = True\<rparr>"] a
    load_data_guarded [of no_file] b
  show ?thesis by simp
qed

text \<open>
  C7, as stated, fails: for a file that exists but on whose path \<open>os.stat\<close> fails, so that
  it cannot be read, \<open>load_data\<close> returns the empty mapping and no error.
\<close>

theorem load_data_inaccessible_counterexample:
  "file_exists (data_file \<lparr>data_file = Inaccessible, writable = False\<rparr>) \<and>
   open_and_json_load (data_file \<lparr>data_file = Inaccessible, writable = False\<rparr>) = Inl OSError \<and>
   load_data \<lparr>data_file = Inaccessible, writable = False\<rparr> = Inr (JObject [])"
  by (simp add: load_data_def)


section \<open>The validator\<close>

text \<open>
  C6. \<open>validate_tech_stack\<close> holds exactly when the lowercased input contains one of the
  keywords as a substring. It is a function of its argument alone. It rejects
  "I cook pasta" and accepts "I use Python and React".
\<close>

theorem validate_tech_stack_iff:
  "(validate_tech_stack text \<longleftrightarrow>
      (\<exists>kw \<in> set valid_tech_keywords. \<exists>before after. lower text = before @ kw @ after)) \<and>
   \<not> validate_tech_stack (py ''I cook pasta'') \<and>
   validate_tech_stack (py ''I use Python and React'')"
proof (intro conjI)
  show "validate_tech_stack text \<longleftrightarrow>
      (\<exists>kw \<in> set valid_tech_keywords. \<exists>before after. lower text = before @ kw @ after)"
    by (simp add: validate_tech_stack_def list_ex_iff str_in_sublist sublist_def)
  show "\<not> validate_tech_stack (py ''I cook pasta'')" by code_simp
  show "validate_tech_stack (py ''I use Python and React'')" by code_simp
qed

theorem validate_tech_stack_iff_witness:
  "py ''sql'' \<in> set valid_tech_keywords \<and>
   lower (py ''MySQL 8'') = py ''my'' @ py ''sql'' @ py '' 8'' \<and>
   validate_tech_stack (py ''MySQL 8'')"
proof -
  have k: "py ''sql'' \<in> set valid_tech_keywords" by (simp add: valid_tech_keywords_def)
  have l: "lower (py ''MySQL 8'') = py ''my'' @ py ''sql'' @ py '' 8''" by code_simp
  from k l validate_tech_stack_iff [of "py ''MySQL 8''"] show ?thesis by blast
qed


section \<open>The question generator\<close>

text \<open>
  C4. For a tech stack that passes validation and a language model that answers,
  \<open>generate_questions\<close> sends the fixed prompt, and returns the first five non-blank
  trimmed lines of the response, or the single localized fallback message when there is
  no such line. The result has between one and five entries.
\<close>

theorem generate_questions_valid:
  assumes "validate_tech_stack stack"
    and "llm_invoke sv (generation_prompt stack) = Some raw"
  shows "generate_questions sv lang stack =
           (if spec_questions raw = []
            then (Inr [fst (translate_text sv no_questions_message lang)],
                  CallLLM (generation_prompt stack) #
                    snd (translate_text sv no_questions_message lang))
            else (Inr (spec_questions raw), [CallLLM (generation_prompt stack)])) \<and>
         (\<exists>qs. fst (generate_questions sv lang stack) = Inr qs \<and>
               1 \<le> length qs \<and> length qs \<le> 5)"
proof (cases "response_lines raw = []")
  case True
  then have "spec_questions raw = []"
    using response_lines_spec [of raw] by simp
  with True assms show ?thesis
    by (simp add: generate_questions_def split: prod.splits)
next
  case False
  then have ne: "spec_questions raw \<noteq> []"
    using response_lines_spec [of raw] by auto
  have "length (spec_questions raw) \<le> 5"
    by (simp add: spec_questions_def)
  moreover from ne have "1 \<le> length (spec_questions raw)"
    by (cases "spec_questions raw") simp_all
  ultimately show ?thesis
    using False ne assms by (simp add: generate_questions_def response_lines_spec)
qed

theorem generate_questions_valid_witness:
  "validate_tech_stack (py ''sql'') \<and>
   llm_invoke failing_translator (generation_prompt (py ''sql'')) = Some two_question_response \<and>
   fst (generate_questions failing_translator (py ''te'') (py ''sql'')) =
     Inr [py ''Q1?'', py ''Q2?'']"
proof -
  have v: "validate_tech_stack (py ''sql'')" by code_simp
  have l: "llm_invoke failing_translator (generation_prompt (py ''sql'')) =
             Some two_question_response"
    by (simp add: failing_translator_def)
  have q: "spec_questions two_question_response = [py ''Q1?'', py ''Q2?'']" by code_simp
  from generate_questions_valid [OF v l, of "py ''te''"] v l q show ?thesis by simp
qed


section \<open>Runs of the script\<close>

lemma localize_session [simp]: "session (snd (localize sv t w)) = session w"
  and localize_disk [simp]: "disk (snd (localize sv t w)) = disk w"
  and localize_shown [simp]: "shown (snd (localize sv t w)) = shown w"
  and localize_calls [simp]: "calls (snd (localize sv t w)) =
        calls w @ snd (translate_text sv t (preferred_language (session w)))"
  and localize_fst [simp]: "fst (localize sv t w) =
        fst (translate_text sv t (preferred_language (session w)))"
  by (simp_all add: localize_def split: prod.splits)

lemma render_session [simp]: "session (render sv ts w) = session w"
  unfolding render_def by (induction ts arbitrary: w) simp_all

lemma render_disk [simp]: "disk (render sv ts w) = disk w"
  unfolding render_def by (induction ts arbitrary: w) simp_all

lemma render_shown [simp]: "shown (render sv ts w) = shown w"
  unfolding render_def by (induction ts arbitrary: w) simp_all

lemma render_calls [simp]:
  "calls (render sv ts w) = calls w @ display_calls sv (preferred_language (session w)) ts"
  unfolding render_def display_calls_def
proof (induction ts arbitrary: w)
  case Nil
  show ?case by simp
next
  case (Cons t ts)
  show ?case by (simp add: Cons.IH)
qed

lemma warning_session [simp]: "session (warning sv t w) = session w"
  and warning_disk [simp]: "disk (warning sv t w) = disk w"
  and warning_shown [simp]: "shown (warning sv t w) =
        shown w @ [Warning (fst (translate_text sv t (preferred_language (session w))))]"
  and warning_calls [simp]: "calls (warning sv t w) =
        calls w @ snd (translate_text sv t (preferred_language (session w)))"
  by (simp_all add: warning_def localize_def split: prod.splits)

lemma success_session [simp]: "session (success sv t w) = session w"
  and success_disk [simp]: "disk (success sv t w) = disk w"
  and success_shown [simp]: "shown (success sv t w) =
        shown w @ [Success (fst (translate_text sv t (preferred_language (session w))))]"
  and success_calls [simp]: "calls (success sv t w) =
        calls w @ snd (translate_text sv t (preferred_language (session w)))"
  by (simp_all add: success_def localize_def split: prod.splits)

lemma generate_questions_nonempty:
  "generate_questions sv lang stack = (Inr qs, cs) \<Longrightarrow> qs \<noteq> [] \<and> length qs \<le> 5"
  by (auto simp: generate_questions_def Let_def split: if_splits option.splits prod.splits)

lemma select_language_inv:
  "session_inv (session w) \<Longrightarrow> session_inv (session (snd (select_language inp w)))"
  by (simp add: select_language_def session_inv_def)

lemma candidate_info_form_inv:
  "session_inv (session w) \<Longrightarrow> session_inv (session (snd (candidate_info_form sv inp w)))"
  by (auto simp: candidate_info_form_def session_inv_def Let_def
           split: prod.splits sum.splits dest: generate_questions_nonempty)

lemma ask_question_inv:
  "session_inv (session w) \<Longrightarrow> question_index (session w) < length (questions (session w)) \<Longrightarrow>
   session_inv (session (snd (ask_question sv inp (question_index (session w)) w)))"
  by (auto simp: ask_question_def session_inv_def Let_def split: prod.splits)

lemma complete_interview_inv:
  "session_inv (session w) \<Longrightarrow> session_inv (session (snd (complete_interview sv inp w)))"
  by (auto simp: complete_interview_def session_inv_def Let_def split: sum.splits)

lemma interview_process_inv:
  "session_inv (session w) \<Longrightarrow> session_inv (session (snd (interview_process sv inp w)))"
  by (simp add: interview_process_def Let_def ask_question_inv complete_interview_inv)

lemma admin_listing_session [simp]: "session (snd (admin_listing sv inp w)) = session w"
  and admin_listing_disk [simp]: "disk (snd (admin_listing sv inp w)) = disk w"
  by (simp_all add: admin_listing_def Let_def split: sum.splits json.splits)

lemma and_then_preserves:
  assumes "\<And>w. P w \<Longrightarrow> P (snd (f w))"
    and "\<And>w. P w \<Longrightarrow> P (snd (g w))"
    and "P w"
  shows "P (snd (and_then f g w))"
proof (cases "f w")
  case (Pair out w')
  with assms(1) [OF assms(3)] have "P w'" by simp
  with Pair assms(2) show ?thesis
    by (cases out) (simp_all add: and_then_def)
qed

lemma script_inv:
  "session_inv (session w) \<Longrightarrow> session_inv (session (snd (script sv inp w)))"
  unfolding script_def
  by (intro and_then_preserves [where P = "\<lambda>w. session_inv (session w)"]
        select_language_inv candidate_info_form_inv interview_process_inv) simp_all

lemma interact_inv:
  "session_inv (fst sd) \<Longrightarrow> session_inv (session (snd (interact sv inp sd)))"
proof -
  assume a: "session_inv (fst sd)"
  let ?w = "\<lparr>session = fst sd, disk = snd sd, calls = [], shown = []\<rparr>"
  from a have "session_inv (session (snd (script sv inp ?w)))" by (simp add: script_inv)
  then show ?thesis
    by (cases "script sv inp ?w"; cases "fst (script sv inp ?w)")
       (auto simp: interact_def script_inv)
qed

lemma after_interaction_inv:
  "session_inv (fst sd) \<Longrightarrow> session_inv (fst (after_interaction sv inp sd))"
  by (simp add: after_interaction_def Let_def interact_inv)

lemma run_session_snoc:
  "run_session sv d (inps @ [inp]) = after_interaction sv inp (run_session sv d inps)"
  by (simp add: run_session_def)

lemma run_session_inv: "session_inv (fst (run_session sv d inps))"
proof (induction inps rule: rev_induct)
  case Nil
  show ?case by (simp add: run_session_def session_inv_def initial_session_def)
next
  case (snoc inp inps)
  then show ?case by (simp add: run_session_snoc after_interaction_inv)
qed


lemma and_then_Continue: "fst (f w) = Continue \<Longrightarrow> and_then f g w = g (snd (f w))"
  by (cases "f w") (simp add: and_then_def)

lemma and_then_stop: "fst (f w) \<noteq> Continue \<Longrightarrow> and_then f g w = f w"
  by (cases "f w"; cases "fst (f w)") (auto simp: and_then_def)

lemma interact_rerun:
  "fst (script sv inp \<lparr>session = s, disk = d, calls = [], shown = []\<rparr>) = Rerun \<Longrightarrow>
   interact sv inp (s, d) =
     script sv (after_rerun inp) (snd (script sv inp \<lparr>session = s, disk = d, calls = [], shown = []\<rparr>))"
  by (cases "script sv inp \<lparr>session = s, disk = d, calls = [], shown = []\<rparr>") (simp add: interact_def)

lemma interact_no_rerun:
  "fst (script sv inp \<lparr>session = s, disk = d, calls = [], shown = []\<rparr>) \<noteq> Rerun \<Longrightarrow>
   interact sv inp (s, d) = script sv inp \<lparr>session = s, disk = d, calls = [], shown = []\<rparr>"
  by (cases "script sv inp \<lparr>session = s, disk = d, calls = [], shown = []\<rparr>";
      cases "fst (script sv inp \<lparr>session = s, disk = d, calls = [], shown = []\<rparr>)")
     (auto simp: interact_def)

lemma script_started:
  "interview_started (session w) \<Longrightarrow>
   script sv inp w =
     and_then (interview_process sv inp) (admin_listing sv inp) (snd (select_language inp w))"
  by (simp add: script_def and_then_def select_language_def candidate_info_form_def)

lemma script_complete:
  assumes "phase_of (session w) = COMPLETE"
  shows "script sv inp w =
     and_then (complete_interview sv inp) (admin_listing sv inp) (snd (select_language inp w))"
proof -
  from assms have st: "interview_started (session w)" and q: "questions (session w) \<noteq> []"
    and i: "\<not> question_index (session w) < length (questions (session w))"
    by (auto simp: phase_of_def split: if_splits)
  have "interview_process sv inp (snd (select_language inp w)) =
          complete_interview sv inp (snd (select_language inp w))"
    using st q i by (simp add: interview_process_def select_language_def)
  then show ?thesis using st by (simp add: script_started and_then_def)
qed

lemma script_asking:
  assumes "phase_of (session w) = INTERVIEWING"
  shows "script sv inp w =
     and_then (ask_question sv inp (question_index (session w))) (admin_listing sv inp)
       (snd (select_language inp w))"
proof -
  from assms have st: "interview_started (session w)" and q: "questions (session w) \<noteq> []"
    and i: "question_index (session w) < length (questions (session w))"
    by (auto simp: phase_of_def split: if_splits)
  have "interview_process sv inp (snd (select_language inp w)) =
          ask_question sv inp (question_index (session w)) (snd (select_language inp w))"
    using st q i by (simp add: interview_process_def select_language_def)
  then show ?thesis using st by (simp add: script_started and_then_def)
qed

lemma script_intake:
  assumes "\<not> interview_started (session w)"
  shows "script sv inp w =
     and_then (candidate_info_form sv inp) (admin_listing sv inp) (snd (select_language inp w))"
proof -
  let ?w = "snd (select_language inp w)"
  have ns: "\<not> interview_started (session ?w)" using assms by (simp add: select_language_def)
  have "and_then (candidate_info_form sv inp)
          (and_then (interview_process sv inp) (admin_listing sv inp)) ?w =
        and_then (candidate_info_form sv inp) (admin_listing sv inp) ?w"
  proof (cases "fst (candidate_info_form sv inp ?w) = Continue")
    case True
    then have "\<not> interview_started (session (snd (candidate_info_form sv inp ?w)))"
      using ns by (auto simp: candidate_info_form_def Let_def split: prod.splits sum.splits if_splits)
    then have "interview_process sv inp (snd (candidate_info_form sv inp ?w)) =
                 (Continue, snd (candidate_info_form sv inp ?w))"
      by (simp add: interview_process_def)
    with True show ?thesis by (simp add: and_then_Continue)
  next
    case False
    then show ?thesis by (simp add: and_then_stop)
  qed
  then show ?thesis by (simp add: script_def and_then_def select_language_def)
qed


lemma select_language_simps [simp]:
  "fst (select_language inp w) = Continue"
  "session (snd (select_language inp w)) =
     (session w)\<lparr>preferred_language := lang_options (selected_lang inp)\<rparr>"
  "disk (snd (select_language inp w)) = disk w"
  "calls (snd (select_language inp w)) = calls w"
  "shown (snd (select_language inp w)) = shown w"
  by (simp_all add: select_language_def)

lemma and_then_admin_session:
  "session (snd (and_then f (admin_listing sv inp) w)) = session (snd (f w))"
  by (cases "f w"; cases "fst (f w)") (auto simp: and_then_def)

lemma and_then_admin_disk:
  "disk (snd (and_then f (admin_listing sv inp) w)) = disk (snd (f w))"
  by (cases "f w"; cases "fst (f w)") (auto simp: and_then_def)

lemma and_then_admin_rerun:
  "fst (and_then f (admin_listing sv inp) w) = Rerun \<longleftrightarrow> fst (f w) = Rerun"
  by (cases "f w"; cases "fst (f w)")
     (auto simp: and_then_def admin_listing_def Let_def split: sum.splits json.splits)

lemma idle_after_rerun [simp]: "idle (after_rerun inp)"
  by (simp add: idle_def after_rerun_def)

lemma selected_lang_after_rerun [simp]: "selected_lang (after_rerun inp) = selected_lang inp"
  by (simp add: after_rerun_def)

lemma complete_interview_failed:
  "save_interview (session w) (disk w) = Inl e \<Longrightarrow> complete_interview sv inp w = (Raised e, w)"
  by (simp add: complete_interview_def)

lemma complete_interview_saved:
  assumes "save_interview (session w) (disk w) = Inr d"
  shows "fst (complete_interview sv inp w) = (if start_new inp then Rerun else Continue)"
    and "session (snd (complete_interview sv inp w)) =
           (if start_new inp
            then initial_session\<lparr>preferred_language := preferred_language (session w)\<rparr>
            else session w)"
    and "disk (snd (complete_interview sv inp w)) = d"
  using assms by (simp_all add: complete_interview_def Let_def initial_session_def)

lemma idle_script:
  assumes "idle inp"
  shows "fst (script sv inp w) \<noteq> Rerun"
    and "session (snd (script sv inp w)) =
           (session w)\<lparr>preferred_language := lang_options (selected_lang inp)\<rparr>"
proof -
  let ?w = "snd (select_language inp w)"
  from assms have i: "\<not> submit_info inp" "\<not> submit_answer inp" "\<not> start_new inp"
    "answer_widget inp = None" by (simp_all add: idle_def)
  have "fst (script sv inp w) \<noteq> Rerun \<and>
        session (snd (script sv inp w)) =
           (session w)\<lparr>preferred_language := lang_options (selected_lang inp)\<rparr>"
  proof (cases "phase_of (session w)")
    case INTAKE
    then have ns: "\<not> interview_started (session w)" by (auto simp: phase_of_def split: if_splits)
    have "candidate_info_form sv inp ?w = (Continue, render sv form_labels ?w)"
      using ns i by (simp add: candidate_info_form_def)
    then show ?thesis using ns
      by (simp add: script_intake and_then_admin_session and_then_admin_rerun)
  next
    case INTERVIEWING
    have "fst (ask_question sv inp (question_index (session w)) ?w) = Continue \<and>
          session (snd (ask_question sv inp (question_index (session w)) ?w)) = session ?w"
      using i by (simp add: ask_question_def Let_def text_area_def)
    then show ?thesis using INTERVIEWING
      by (simp add: script_asking and_then_admin_session and_then_admin_rerun)
  next
    case COMPLETE
    show ?thesis
    proof (cases "save_interview (session ?w) (disk ?w)")
      case (Inl e)
      then show ?thesis using COMPLETE
        by (simp add: script_complete complete_interview_failed and_then_admin_session
              and_then_admin_rerun)
    next
      case (Inr d)
      then show ?thesis using COMPLETE i
        by (simp add: script_complete complete_interview_saved and_then_admin_session
              and_then_admin_rerun)
    qed
  next
    case NO_SCREEN
    then have st: "interview_started (session w)" and q: "questions (session w) = []"
      by (auto simp: phase_of_def split: if_splits)
    have "interview_process sv inp ?w = (Continue, ?w)"
      using q by (simp add: interview_process_def)
    then show ?thesis using st
      by (simp add: script_started and_then_admin_session and_then_admin_rerun)
  qed
  then show "fst (script sv inp w) \<noteq> Rerun"
    and "session (snd (script sv inp w)) =
           (session w)\<lparr>preferred_language := lang_options (selected_lang inp)\<rparr>"
    by simp_all
qed

lemma complete_interaction:
  assumes "phase_of s = COMPLETE"
  shows "session (snd (interact sv inp (s, d))) =
           (if start_new inp \<and>
               (\<exists>d'. save_interview (s\<lparr>preferred_language := lang_options (selected_lang inp)\<rparr>) d = Inr d')
            then initial_session\<lparr>preferred_language := lang_options (selected_lang inp)\<rparr>
            else s\<lparr>preferred_language := lang_options (selected_lang inp)\<rparr>)"
proof -
  let ?init = "\<lparr>session = s, disk = d, calls = [], shown = []\<rparr>"
  let ?w = "snd (select_language inp ?init)"
  let ?L = "lang_options (selected_lang inp)"
  have sc: "script sv inp ?init =
              and_then (complete_interview sv inp) (admin_listing sv inp) ?w"
    using assms by (simp add: script_complete)
  show ?thesis
  proof (cases "save_interview (session ?w) (disk ?w)")
    case (Inl e)
    then have "complete_interview sv inp ?w = (Raised e, ?w)"
      by (rule complete_interview_failed)
    then have "fst (script sv inp ?init) \<noteq> Rerun" "session (snd (script sv inp ?init)) = s\<lparr>preferred_language := ?L\<rparr>"
      by (simp_all add: sc and_then_admin_rerun and_then_admin_session)
    with Inl show ?thesis by (simp add: interact_no_rerun)
  next
    case (Inr d')
    note ci = complete_interview_saved [OF Inr, of sv inp]
    show ?thesis
    proof (cases "start_new inp")
      case True
      with ci have r: "fst (script sv inp ?init) = Rerun"
        and s1: "session (snd (script sv inp ?init)) = initial_session\<lparr>preferred_language := ?L\<rparr>"
        by (simp_all add: sc and_then_admin_rerun and_then_admin_session)
      have "session (snd (interact sv inp (s, d))) =
              (initial_session\<lparr>preferred_language := ?L\<rparr>)\<lparr>preferred_language := ?L\<rparr>"
        by (simp add: interact_rerun [OF r] idle_script s1)
      with True Inr show ?thesis by simp
    next
      case False
      with ci have "fst (script sv inp ?init) \<noteq> Rerun"
        and "session (snd (script sv inp ?init)) = s\<lparr>preferred_language := ?L\<rparr>"
        by (simp_all add: sc and_then_admin_rerun and_then_admin_session)
      with False show ?thesis by (simp add: interact_no_rerun)
    qed
  qed
qed




section \<open>The session state machine\<close>

text \<open>
  C1. In every state that a browser session reaches, whatever the services answer,
  whatever the store holds and whatever the user does, the conversation has as many
  entries as the question index says, and the index does not exceed the number of
  questions. The same holds after any single run of the script from such a state, that
  is, also between a run that ends in \<open>st.rerun()\<close> and the run that follows it.
\<close>

theorem session_invariant:
  "length (conversation (fst (run_session sv d inps))) =
     question_index (fst (run_session sv d inps)) \<and>
   question_index (fst (run_session sv d inps)) \<le>
     length (questions (fst (run_session sv d inps))) \<and>
   length (conversation (session (snd (script sv inp
       \<lparr>session = fst (run_session sv d inps), disk = d', calls = [], shown = []\<rparr>)))) =
     question_index (session (snd (script sv inp
       \<lparr>session = fst (run_session sv d inps), disk = d', calls = [], shown = []\<rparr>))) \<and>
   question_index (session (snd (script sv inp
       \<lparr>session = fst (run_session sv d inps), disk = d', calls = [], shown = []\<rparr>))) \<le>
     length (questions (session (snd (script sv inp
       \<lparr>session = fst (run_session sv d inps), disk = d', calls = [], shown = []\<rparr>))))"
proof -
  let ?s = "fst (run_session sv d inps)"
  let ?w = "\<lparr>session = ?s, disk = d', calls = [], shown = []\<rparr>"
  have a: "session_inv ?s" by (rule run_session_inv)
  then have "session_inv (session ?w)" by simp
  then have b: "session_inv (session (snd (script sv inp ?w)))" by (rule script_inv)
  from a b show ?thesis by (simp add: session_inv_def)
qed


text \<open>
  C2. A reachable session shows the completion screen exactly when the question index
  equals the number of questions and there is a question. From a state that shows the
  completion screen, an interaction either leaves the session as it is (up to the
  display language), so that it still shows the completion screen and no answer is
  added, or it is a press of the restart button and the session is the initial one.
\<close>

theorem complete_phase:
  "(phase_of (fst (run_session sv d inps)) = COMPLETE \<longleftrightarrow>
      question_index (fst (run_session sv d inps)) = length (questions (fst (run_session sv d inps)))
      \<and> 0 < length (questions (fst (run_session sv d inps)))) \<and>
   (phase_of s = COMPLETE \<longrightarrow>
      (fst (after_interaction sv inp (s, d')) =
         s\<lparr>preferred_language := lang_options (selected_lang inp)\<rparr> \<and>
       phase_of (fst (after_interaction sv inp (s, d'))) = COMPLETE \<and>
       conversation (fst (after_interaction sv inp (s, d'))) = conversation s)
      \<or>
      (start_new inp \<and>
       fst (after_interaction sv inp (s, d')) =
         initial_session\<lparr>preferred_language := lang_options (selected_lang inp)\<rparr>))"
proof (intro conjI impI)
  let ?s = "fst (run_session sv d inps)"
  from run_session_inv [of sv d inps]
  show "phase_of ?s = COMPLETE \<longleftrightarrow>
          question_index ?s = length (questions ?s) \<and> 0 < length (questions ?s)"
    by (auto simp: session_inv_def phase_of_def)
next
  assume c: "phase_of s = COMPLETE"
  let ?L = "lang_options (selected_lang inp)"
  from c have "phase_of (s\<lparr>preferred_language := ?L\<rparr>) = COMPLETE"
    by (simp add: phase_of_def split: if_splits)
  then show "(fst (after_interaction sv inp (s, d')) = s\<lparr>preferred_language := ?L\<rparr> \<and>
       phase_of (fst (after_interaction sv inp (s, d'))) = COMPLETE \<and>
       conversation (fst (after_interaction sv inp (s, d'))) = conversation s)
      \<or>
      (start_new inp \<and>
       fst (after_interaction sv inp (s, d')) = initial_session\<lparr>preferred_language := ?L\<rparr>)"
    using complete_interaction [OF c, of sv inp d']
    by (simp add: after_interaction_def Let_def split: if_splits)
qed

theorem complete_phase_witness:
  "phase_of finished_session = COMPLETE \<and>
   fst (after_interaction failing_translator answer_yes (finished_session, no_file)) =
     finished_session\<lparr>preferred_language := py ''te''\<rparr>"
proof -
  have c: "phase_of finished_session = COMPLETE"
    by (simp add: phase_of_def finished_session_def asking_session_def)
  have n: "\<not> start_new answer_yes" "lang_options (selected_lang answer_yes) = py ''te''"
    by (simp_all add: answer_yes_def idle_visit_def)
  from complete_phase [of failing_translator no_file "[]" finished_session answer_yes no_file] c n
  show ?thesis by simp
qed


section \<open>Saving an interview\<close>

lemma save_interview_ok:
  assumes "load_data d = Inr (JObject m)" and "writable d" and "candidate_info s = Some ci"
  shows "save_interview s d =
           Inr (d\<lparr>data_file := Document (JObject (AList.update (email ci) (stored_record s ci) m))\<rparr>)"
  using assms by (simp add: save_interview_def save_data_def stored_record_def)

lemma update_twice: "AList.update k v (AList.update k v m) = AList.update k v m"
  by (induction m) auto

lemma one_entry:
  "distinct (map fst m) \<Longrightarrow> length (filter (\<lambda>e. fst e = k) (AList.update k v m)) = 1"
proof (induction m)
  case Nil
  show ?case by simp
next
  case (Cons p m)
  show ?case
  proof (cases "fst p = k")
    case True
    with Cons.prems have "k \<notin> fst ` set m" by simp
    then have "\<forall>e \<in> set m. fst e \<noteq> k" by auto
    then have "filter (\<lambda>e. fst e = k) m = []"
      by (simp add: filter_empty_conv)
    with True show ?thesis by simp
  next
    case False
    with Cons show ?thesis by simp
  qed
qed

text \<open>
  C5. Saving the same interview twice gives the store that saving it once gives: for
  every store that holds a dictionary (its keys are distinct, as those of a Python
  dictionary are) and can be written, and every session with a profile, the second save
  leaves the file as the first one wrote it, with exactly one entry under the email,
  which is the record of this session, and every other key as it was.
\<close>

theorem save_interview_idempotent:
  assumes "load_data d = Inr (JObject m)" and "distinct (map fst m)" and "writable d"
    and "candidate_info s = Some ci"
  shows "\<exists>d1 m1. save_interview s d = Inr d1 \<and> save_interview s d1 = Inr d1 \<and>
           load_data d1 = Inr (JObject m1) \<and>
           length (filter (\<lambda>e. fst e = email ci) m1) = 1 \<and>
           map_of m1 (email ci) = Some (stored_record s ci) \<and>
           (\<forall>k. k \<noteq> email ci \<longrightarrow> map_of m1 k = map_of m k)"
proof -
  let ?m1 = "AList.update (email ci) (stored_record s ci) m"
  let ?d1 = "d\<lparr>data_file := Document (JObject ?m1)\<rparr>"
  have s1: "save_interview s d = Inr ?d1"
    using assms by (simp add: save_interview_ok)
  have l1: "load_data ?d1 = Inr (JObject ?m1)"
    by (simp add: load_data_def)
  have "save_interview s ?d1 =
          Inr (?d1\<lparr>data_file := Document (JObject (AList.update (email ci) (stored_record s ci) ?m1))\<rparr>)"
    using l1 assms(3,4) by (intro save_interview_ok) simp_all
  then have s2: "save_interview s ?d1 = Inr ?d1"
    by (simp add: update_twice)
  have "length (filter (\<lambda>e. fst e = email ci) ?m1) = 1"
    using assms(2) by (rule one_entry)
  moreover have "map_of ?m1 (email ci) = Some (stored_record s ci)"
    by (simp add: update_conv')
  moreover have "\<forall>k. k \<noteq> email ci \<longrightarrow> map_of ?m1 k = map_of m k"
    by (simp add: update_conv')
  ultimately show ?thesis using s1 s2 l1 by blast
qed

theorem save_interview_idempotent_witness:
  "load_data no_file = Inr (JObject []) \<and> distinct (map fst ([] :: (pystr \<times> entry) list)) \<and>
   writable no_file \<and> candidate_info finished_session = Some example_candidate \<and>
   (\<exists>d1 m1. save_interview finished_session no_file = Inr d1 \<and>
      save_interview finished_session d1 = Inr d1 \<and>
      load_data d1 = Inr (JObject m1) \<and>
      length (filter (\<lambda>e. fst e = email example_candidate) m1) = 1)"
proof -
  have a: "load_data no_file = Inr (JObject [])" by (simp add: load_data_def no_file_def)
  have b: "distinct (map fst ([] :: (pystr \<times> entry) list))" by simp
  have c: "writable no_file" by (simp add: no_file_def)
  have e: "candidate_info finished_session = Some example_candidate"
    by (simp add: finished_session_def asking_session_def)
  from save_interview_idempotent [OF a b c e] a b c e show ?thesis by blast
qed


section \<open>Accepted submissions\<close>

lemma candidate_info_form_disk [simp]:
  "disk (snd (candidate_info_form sv inp w)) = disk w"
  by (simp add: candidate_info_form_def Let_def split: prod.splits sum.splits)

lemma ask_question_disk [simp]: "disk (snd (ask_question sv inp i w)) = disk w"
  by (simp add: ask_question_def Let_def split: prod.splits)

lemma script_disk:
  "disk (snd (script sv inp w)) =
     (if phase_of (session w) = COMPLETE
      then (case save_interview ((session w)\<lparr>preferred_language := lang_options (selected_lang inp)\<rparr>)
                  (disk w) of
              Inl e \<Rightarrow> disk w | Inr d \<Rightarrow> d)
      else disk w)"
proof (cases "phase_of (session w)")
  case INTAKE
  then have "\<not> interview_started (session w)" by (auto simp: phase_of_def split: if_splits)
  with INTAKE show ?thesis by (simp add: script_intake and_then_admin_disk)
next
  case INTERVIEWING
  then show ?thesis by (simp add: script_asking and_then_admin_disk)
next
  case COMPLETE
  let ?sel = "snd (select_language inp w)"
  show ?thesis
  proof (cases "save_interview (session ?sel) (disk ?sel)")
    case (Inl e)
    with COMPLETE show ?thesis
      by (simp add: script_complete and_then_admin_disk complete_interview_failed)
  next
    case (Inr d1)
    with COMPLETE complete_interview_saved(3) [OF Inr, of sv inp] show ?thesis
      by (simp add: script_complete and_then_admin_disk)
  qed
next
  case NO_SCREEN
  then have st: "interview_started (session w)" and q: "questions (session w) = []"
    by (auto simp: phase_of_def split: if_splits)
  have "interview_process sv inp (snd (select_language inp w)) = (Continue, snd (select_language inp w))"
    using q by (simp add: interview_process_def)
  with NO_SCREEN st show ?thesis by (simp add: script_started and_then_admin_disk)
qed

lemma candidate_info_form_accepted:
  assumes "\<not> interview_started (session w)" and "submit_info inp"
    and "full_name_input inp \<noteq> []" and "email_input inp \<noteq> []" and "phone_input inp \<noteq> []"
    and "tech_stack_input inp \<noteq> []"
    and "fst (generate_questions sv (preferred_language (session w)) (tech_stack_input inp)) = Inr qs"
  shows "fst (candidate_info_form sv inp w) = Rerun"
    and "session (snd (candidate_info_form sv inp w)) =
           (session w)\<lparr>candidate_info := Some (form_profile inp), questions := qs,
              question_index := 0, conversation := [], interview_started := True,
              current_answer := []\<rparr>"
  using assms by (auto simp: candidate_info_form_def Let_def split: prod.splits)

lemma form_submit:
  assumes "\<not> interview_started s" and "submit_info inp"
    and "full_name_input inp \<noteq> []" and "email_input inp \<noteq> []" and "phone_input inp \<noteq> []"
    and "tech_stack_input inp \<noteq> []"
    and "fst (generate_questions sv (lang_options (selected_lang inp)) (tech_stack_input inp)) = Inr qs"
    and "qs \<noteq> []"
  shows "session (snd (interact sv inp (s, d))) =
           s\<lparr>preferred_language := lang_options (selected_lang inp),
             candidate_info := Some (form_profile inp), questions := qs,
             question_index := 0, conversation := [], interview_started := True,
             current_answer := []\<rparr>"
    and "disk (snd (interact sv inp (s, d))) = d"
proof -
  let ?init = "\<lparr>session = s, disk = d, calls = [], shown = []\<rparr>"
  let ?sel = "snd (select_language inp ?init)"
  let ?L = "lang_options (selected_lang inp)"
  let ?s1 = "s\<lparr>preferred_language := ?L,
             candidate_info := Some (form_profile inp), questions := qs,
             question_index := 0, conversation := [], interview_started := True,
             current_answer := []\<rparr>"
  have ns: "\<not> interview_started (session ?sel)" using assms(1) by simp
  have g: "fst (generate_questions sv (preferred_language (session ?sel)) (tech_stack_input inp)) = Inr qs"
    using assms(7) by simp
  note f = candidate_info_form_accepted [OF ns assms(2-6) g]
  have sc: "script sv inp ?init = and_then (candidate_info_form sv inp) (admin_listing sv inp) ?sel"
    using assms(1) script_intake [of ?init sv inp] by simp
  have r: "fst (script sv inp ?init) = Rerun" using f(1) by (simp add: sc and_then_admin_rerun)
  have s1: "session (snd (script sv inp ?init)) = ?s1"
    using f(2) by (simp add: sc and_then_admin_session)
  have d1: "disk (snd (script sv inp ?init)) = d"
    by (simp add: sc and_then_admin_disk)
  have p: "phase_of ?s1 = INTERVIEWING" using assms(8) by (simp add: phase_of_def)
  show "session (snd (interact sv inp (s, d))) = ?s1"
    by (simp add: interact_rerun [OF r] idle_script s1)
  show "disk (snd (interact sv inp (s, d))) = d"
    using p script_disk [of sv "after_rerun inp" "snd (script sv inp ?init)"]
    by (simp add: interact_rerun [OF r] s1 d1)
qed

lemma ask_question_accepted:
  assumes "submit_answer inp" and "strip (text_area inp (current_answer (session w))) \<noteq> []"
  shows "fst (ask_question sv inp i w) = Rerun"
    and "session (snd (ask_question sv inp i w)) =
           (session w)\<lparr>conversation := conversation (session w) @
                [\<lparr>question = questions (session w) ! i,
                  answer = text_area inp (current_answer (session w)),
                  sentiment = fst (analyze_sentiment sv (text_area inp (current_answer (session w))))\<rparr>],
              question_index := question_index (session w) + 1,
              current_answer := []\<rparr>"
  using assms
  by (simp_all add: ask_question_def Let_def translate_text_def split: prod.splits)

lemma answer_submit:
  assumes "phase_of s = INTERVIEWING" and "submit_answer inp"
    and "strip (text_area inp (current_answer s)) \<noteq> []"
  shows "session (snd (interact sv inp (s, d))) = answered sv inp s"
    and "disk (snd (interact sv inp (s, d))) =
           (if phase_of (answered sv inp s) = COMPLETE
            then (case save_interview (answered sv inp s) d of Inl e \<Rightarrow> d | Inr d1 \<Rightarrow> d1)
            else d)"
proof -
  let ?init = "\<lparr>session = s, disk = d, calls = [], shown = []\<rparr>"
  let ?sel = "snd (select_language inp ?init)"
  have b: "strip (text_area inp (current_answer (session ?sel))) \<noteq> []"
    using assms(3) by simp
  note aq = ask_question_accepted [OF assms(2) b, of sv "question_index s"]
  have sc: "script sv inp ?init = and_then (ask_question sv inp (question_index s))
              (admin_listing sv inp) ?sel"
    using assms(1) script_asking [of ?init sv inp] by simp
  have r: "fst (script sv inp ?init) = Rerun" using aq(1) by (simp add: sc and_then_admin_rerun)
  have e1: "session (snd (script sv inp ?init)) = answered sv inp s"
    using aq(2) by (simp add: sc and_then_admin_session answered_def)
  have d1: "disk (snd (script sv inp ?init)) = d"
    by (simp add: sc and_then_admin_disk)
  have l: "(answered sv inp s)\<lparr>preferred_language := lang_options (selected_lang inp)\<rparr> = answered sv inp s"
    by (simp add: answered_def)
  show "session (snd (interact sv inp (s, d))) = answered sv inp s"
    by (simp add: interact_rerun [OF r] idle_script e1 l)
  show "disk (snd (interact sv inp (s, d))) =
           (if phase_of (answered sv inp s) = COMPLETE
            then (case save_interview (answered sv inp s) d of Inl e \<Rightarrow> d | Inr d1 \<Rightarrow> d1)
            else d)"
    using script_disk [of sv "after_rerun inp" "snd (script sv inp ?init)"]
    by (simp add: interact_rerun [OF r] e1 d1 l cong: if_cong sum.case_cong)
qed

lemma generate_questions_invalid:
  "\<not> validate_tech_stack stack \<Longrightarrow>
   generate_questions sv lang stack =
     (Inr [fst (translate_text sv invalid_stack_message lang)],
      snd (translate_text sv invalid_stack_message lang))"
  by (simp add: generate_questions_def split: prod.splits)

text \<open>The example session: the form of \<open>cooking_form\<close>, then the answer "yes".\<close>

lemma example_hypotheses:
  "\<not> interview_started initial_session" "submit_info cooking_form"
  "full_name_input cooking_form \<noteq> []" "email_input cooking_form \<noteq> []"
  "phone_input cooking_form \<noteq> []" "tech_stack_input cooking_form \<noteq> []"
  "submit_answer answer_yes" "load_data no_file = Inr (JObject [])" "writable no_file"
  by (simp_all add: initial_session_def cooking_form_def answer_yes_def idle_visit_def
        no_file_def load_data_def py_def)

lemma cooking_invalid: "\<not> validate_tech_stack (tech_stack_input cooking_form)"
proof -
  have "\<not> validate_tech_stack (py ''I like cooking'')" by code_simp
  then show ?thesis by (simp add: cooking_form_def idle_visit_def)
qed

lemma yes_not_blank: "strip (text_area answer_yes []) \<noteq> []"
proof -
  have "strip (py ''yes'') \<noteq> []" by code_simp
  then show ?thesis by (simp add: text_area_def answer_yes_def idle_visit_def)
qed

lemma example_run:
  "fst (run_session failing_translator no_file [cooking_form, answer_yes]) = finished_session"
proof -
  let ?L = "lang_options (selected_lang cooking_form)"
  have L: "?L = py ''te''" by (simp add: cooking_form_def idle_visit_def)
  have ne: "py ''te'' \<noteq> py ''en''" by (simp add: py_def)
  have g: "fst (generate_questions failing_translator ?L (tech_stack_input cooking_form)) =
             Inr [invalid_stack_message]"
    using cooking_invalid ne
    by (simp add: generate_questions_invalid L translate_text_def failing_translator_def)
  have s1: "session (snd (interact failing_translator cooking_form (initial_session, no_file))) =
              asking_session"
    using form_submit(1) [OF example_hypotheses(1-6) g, of no_file]
    by (simp add: L asking_session_def initial_session_def form_profile_def cooking_form_def
          idle_visit_def example_candidate_def)
  have d1: "disk (snd (interact failing_translator cooking_form (initial_session, no_file))) =
              no_file"
    using form_submit(2) [OF example_hypotheses(1-6) g, of no_file] by simp
  have p: "phase_of asking_session = INTERVIEWING"
    by (simp add: phase_of_def asking_session_def)
  have t: "strip (text_area answer_yes (current_answer asking_session)) \<noteq> []"
    using yes_not_blank by (simp add: asking_session_def)
  have "session (snd (interact failing_translator answer_yes (asking_session, no_file))) =
          answered failing_translator answer_yes asking_session"
    using p example_hypotheses(7) t by (rule answer_submit(1))
  also have "\<dots> = finished_session"
    by (simp add: answered_def finished_session_def asking_session_def answer_yes_def
          idle_visit_def text_area_def analyze_sentiment_def failing_translator_def)
  finally show ?thesis
    by (simp add: run_session_def after_interaction_def Let_def s1 d1)
qed

text \<open>
  C9. When the tech stack fails validation, \<open>generate_questions\<close> returns the single
  sentinel message. Submitting the form with all required fields nonetheless starts the
  interview with the sentinel as the only question, and the store untouched. One
  non-blank answer then brings the session to the completion screen, with that one
  answer recorded against the sentinel; if the store holds a dictionary and can be
  written, the record is saved under the candidate's email.
\<close>

theorem sentinel_interview:
  assumes "\<not> interview_started s" and "submit_info inp"
    and "full_name_input inp \<noteq> []" and "email_input inp \<noteq> []" and "phone_input inp \<noteq> []"
    and "tech_stack_input inp \<noteq> []"
    and "\<not> validate_tech_stack (tech_stack_input inp)"
    and "submit_answer inp2" and "strip (text_area inp2 []) \<noteq> []"
    and "load_data d = Inr (JObject m)" and "writable d"
  shows
    "let sentinel = fst (translate_text sv invalid_stack_message (lang_options (selected_lang inp)));
         sd1 = after_interaction sv inp (s, d);
         sd2 = after_interaction sv inp2 sd1
     in fst (generate_questions sv (lang_options (selected_lang inp)) (tech_stack_input inp)) =
          Inr [sentinel] \<and>
        questions (fst sd1) = [sentinel] \<and> phase_of (fst sd1) = INTERVIEWING \<and>
        question_index (fst sd1) = 0 \<and> conversation (fst sd1) = [] \<and> snd sd1 = d \<and>
        phase_of (fst sd2) = COMPLETE \<and>
        conversation (fst sd2) =
          [\<lparr>question = sentinel, answer = text_area inp2 [],
            sentiment = fst (analyze_sentiment sv (text_area inp2 []))\<rparr>] \<and>
        load_data (snd sd2) =
          Inr (JObject (AList.update (email_input inp)
                 (stored_record (fst sd2) (form_profile inp)) m))"
proof -
  let ?L = "lang_options (selected_lang inp)"
  let ?sentinel = "fst (translate_text sv invalid_stack_message ?L)"
  let ?s1 = "s\<lparr>preferred_language := ?L,
             candidate_info := Some (form_profile inp), questions := [?sentinel],
             question_index := 0, conversation := [], interview_started := True,
             current_answer := []\<rparr>"
  let ?s2 = "answered sv inp2 ?s1"
  let ?d2 = "d\<lparr>data_file := Document (JObject (AList.update (email (form_profile inp))
               (stored_record ?s2 (form_profile inp)) m))\<rparr>"
  have g: "fst (generate_questions sv ?L (tech_stack_input inp)) = Inr [?sentinel]"
    using assms(7) by (simp add: generate_questions_invalid)
  have f: "after_interaction sv inp (s, d) = (?s1, d)"
    using form_submit [OF assms(1-6) g, of d]
    by (simp add: after_interaction_def Let_def)
  have p1: "phase_of ?s1 = INTERVIEWING" by (simp add: phase_of_def)
  have t: "strip (text_area inp2 (current_answer ?s1)) \<noteq> []" using assms(9) by simp
  have p2: "phase_of ?s2 = COMPLETE" by (simp add: phase_of_def answered_def)
  have ci: "candidate_info ?s2 = Some (form_profile inp)" by (simp add: answered_def)
  have sv2: "save_interview ?s2 d = Inr ?d2"
    using assms(10,11) ci by (rule save_interview_ok)
  have a: "after_interaction sv inp2 (?s1, d) = (?s2, ?d2)"
    using answer_submit [OF p1 assms(8) t, of sv d] p2 sv2
    by (simp add: after_interaction_def Let_def)
  have c2: "conversation ?s2 =
          [\<lparr>question = ?sentinel, answer = text_area inp2 [],
            sentiment = fst (analyze_sentiment sv (text_area inp2 []))\<rparr>]"
    by (simp add: answered_def)
  have l2: "load_data ?d2 = Inr (JObject (AList.update (email_input inp)
                 (stored_record ?s2 (form_profile inp)) m))"
    by (simp add: load_data_def form_profile_def)
  show ?thesis
    unfolding Let_def f a using g p1 p2 c2 l2 by simp
qed

theorem sentinel_interview_witness:
  "\<not> interview_started initial_session \<and> submit_info cooking_form \<and>
   full_name_input cooking_form \<noteq> [] \<and> email_input cooking_form \<noteq> [] \<and>
   phone_input cooking_form \<noteq> [] \<and> tech_stack_input cooking_form \<noteq> [] \<and>
   \<not> validate_tech_stack (tech_stack_input cooking_form) \<and>
   submit_answer answer_yes \<and> strip (text_area answer_yes []) \<noteq> [] \<and>
   load_data no_file = Inr (JObject []) \<and> writable no_file \<and>
   phase_of (fst (after_interaction failing_translator cooking_form (initial_session, no_file)))
     = INTERVIEWING \<and>
   phase_of (fst (after_interaction failing_translator answer_yes
       (after_interaction failing_translator cooking_form (initial_session, no_file))))
     = COMPLETE"
  using sentinel_interview [OF example_hypotheses(1-6) cooking_invalid example_hypotheses(7)
      yes_not_blank example_hypotheses(8,9), of failing_translator]
    example_hypotheses cooking_invalid yes_not_blank
  by (simp add: Let_def)


section \<open>The bound on the years of experience\<close>

lemma update_entry_ok:
  "list_all entry_ok m \<Longrightarrow> entry_ok (k, v) \<Longrightarrow> list_all entry_ok (AList.update k v m)"
  by (induction m) auto

lemma save_interview_ok_file:
  assumes "save_interview s d = Inr d1"
    and "case candidate_info s of None \<Rightarrow> True | Some ci \<Rightarrow> experience_ok ci"
    and "file_ok (data_file d)"
  shows "file_ok (data_file d1)"
proof -
  from assms(1) obtain m ci where l: "load_data d = Inr (JObject m)"
    and c: "candidate_info s = Some ci"
    and d1: "d1 = d\<lparr>data_file := Document (JObject (AList.update (email ci)
                (Rec \<lparr>info = ci, interview = conversation s,
                      completed_date = fixed_completed_date\<rparr>) m))\<rparr>"
    by (auto simp: save_interview_def save_data_def
             split: sum.splits option.splits json.splits if_splits)
  from l assms(3) have "list_all entry_ok m"
    by (cases "data_file d") (auto simp: load_data_def)
  moreover from c assms(2) have "experience_ok ci" by simp
  ultimately show ?thesis using d1 by (simp add: update_entry_ok)
qed

lemma select_language_ok: "world_ok w \<Longrightarrow> world_ok (snd (select_language inp w))"
  by (simp add: world_ok_def)

lemma candidate_info_form_ok:
  "number_input_contract inp \<Longrightarrow> world_ok w \<Longrightarrow> world_ok (snd (candidate_info_form sv inp w))"
  by (auto simp: candidate_info_form_def world_ok_def Let_def number_input_contract_def
        experience_ok_def experience_min_value_def experience_max_value_def form_profile_def
      split: prod.splits sum.splits)

lemma ask_question_ok: "world_ok w \<Longrightarrow> world_ok (snd (ask_question sv inp i w))"
  by (auto simp: ask_question_def world_ok_def Let_def split: prod.splits)

lemma complete_interview_ok:
  assumes "world_ok w"
  shows "world_ok (snd (complete_interview sv inp w))"
proof (cases "save_interview (session w) (disk w)")
  case (Inl e)
  with assms show ?thesis by (simp add: complete_interview_failed)
next
  case (Inr d1)
  from save_interview_ok_file [OF Inr] assms have "file_ok (data_file d1)"
    by (simp add: world_ok_def)
  with assms complete_interview_saved [OF Inr, of sv inp] show ?thesis
    by (auto simp: world_ok_def initial_session_def)
qed

lemma interview_process_ok: "world_ok w \<Longrightarrow> world_ok (snd (interview_process sv inp w))"
  by (simp add: interview_process_def Let_def ask_question_ok complete_interview_ok)

lemma admin_listing_ok: "world_ok w \<Longrightarrow> world_ok (snd (admin_listing sv inp w))"
  by (simp add: world_ok_def)

lemma script_ok:
  "number_input_contract inp \<Longrightarrow> world_ok w \<Longrightarrow> world_ok (snd (script sv inp w))"
  unfolding script_def
  by (intro and_then_preserves [where P = world_ok] select_language_ok candidate_info_form_ok
        interview_process_ok admin_listing_ok)

lemma number_input_contract_after_rerun:
  "number_input_contract inp \<Longrightarrow> number_input_contract (after_rerun inp)"
  by (simp add: number_input_contract_def after_rerun_def)

lemma interact_ok:
  assumes "number_input_contract inp" and "world_ok \<lparr>session = s, disk = d, calls = [], shown = []\<rparr>"
  shows "world_ok (snd (interact sv inp (s, d)))"
proof -
  let ?init = "\<lparr>session = s, disk = d, calls = [], shown = []\<rparr>"
  have a: "world_ok (snd (script sv inp ?init))" using assms by (rule script_ok)
  show ?thesis
  proof (cases "fst (script sv inp ?init) = Rerun")
    case True
    then show ?thesis
      using a assms(1) by (simp add: interact_rerun script_ok number_input_contract_after_rerun)
  next
    case False
    then show ?thesis using a by (simp add: interact_no_rerun)
  qed
qed

lemma after_interaction_ok:
  "number_input_contract inp \<Longrightarrow> state_ok sd \<Longrightarrow> state_ok (after_interaction sv inp sd)"
  using interact_ok [of inp "fst sd" "snd sd" sv]
  by (simp add: state_ok_def after_interaction_def Let_def world_ok_def)

lemma run_session_ok:
  "\<forall>inp \<in> set inps. number_input_contract inp \<Longrightarrow> file_ok (data_file d) \<Longrightarrow>
   state_ok (run_session sv d inps)"
proof (induction inps rule: rev_induct)
  case Nil
  then show ?case by (simp add: run_session_def state_ok_def world_ok_def initial_session_def)
next
  case (snoc inp inps)
  then show ?case by (simp add: run_session_snoc after_interaction_ok)
qed

text \<open>
  C10. If the number input returns values within the bounds the script gives it, every
  profile in the session state has between 0 and 50 years of experience, and so has
  every candidate record in the store, provided those already in the store had.
\<close>

theorem experience_bounded:
  assumes "\<forall>inp \<in> set inps. number_input_contract inp"
    and "file_ok (data_file d)"
  shows "(\<forall>ci. candidate_info (fst (run_session sv d inps)) = Some ci \<longrightarrow>
            0 \<le> experience ci \<and> experience ci \<le> 50) \<and>
         (\<forall>m k r. data_file (snd (run_session sv d inps)) = Document (JObject m) \<longrightarrow>
            (k, Rec r) \<in> set m \<longrightarrow> 0 \<le> experience (info r) \<and> experience (info r) \<le> 50)"
proof -
  from run_session_ok [OF assms] have ok: "state_ok (run_session sv d inps)" .
  have "\<forall>ci. candidate_info (fst (run_session sv d inps)) = Some ci \<longrightarrow>
            0 \<le> experience ci \<and> experience ci \<le> 50"
    using ok by (auto simp: state_ok_def world_ok_def experience_ok_def)
  moreover have "\<forall>m k r. data_file (snd (run_session sv d inps)) = Document (JObject m) \<longrightarrow>
            (k, Rec r) \<in> set m \<longrightarrow> 0 \<le> experience (info r) \<and> experience (info r) \<le> 50"
  proof (intro allI impI)
    fix m k r
    assume "data_file (snd (run_session sv d inps)) = Document (JObject m)"
      and in_m: "(k, Rec r) \<in> set m"
    with ok have "list_all entry_ok m" by (simp add: state_ok_def world_ok_def)
    with in_m have "entry_ok (k, Rec r)" unfolding list_all_iff by blast
    then show "0 \<le> experience (info r) \<and> experience (info r) \<le> 50"
      by (simp add: experience_ok_def)
  qed
  ultimately show ?thesis by blast
qed

theorem experience_bounded_witness:
  "number_input_contract cooking_form \<and> number_input_contract answer_yes \<and>
   file_ok (data_file no_file) \<and>
   candidate_info (fst (run_session failing_translator no_file [cooking_form, answer_yes])) =
     Some example_candidate \<and>
   0 \<le> experience example_candidate \<and> experience example_candidate \<le> 50"
proof -
  have a: "\<forall>inp \<in> set [cooking_form, answer_yes]. number_input_contract inp"
    by (simp add: number_input_contract_def cooking_form_def answer_yes_def idle_visit_def
          experience_min_value_def experience_max_value_def)
  have b: "file_ok (data_file no_file)" by (simp add: no_file_def)
  have c: "candidate_info (fst (run_session failing_translator no_file [cooking_form, answer_yes])) =
             Some example_candidate"
    by (simp add: example_run finished_session_def asking_session_def)
  from experience_bounded [OF a b, of failing_translator] c
  have "0 \<le> experience example_candidate \<and> experience example_candidate \<le> 50"
    by blast
  with a b c show ?thesis by simp
qed


section \<open>Submitting a blank answer\<close>

lemma display_calls_append [simp]:
  "display_calls sv L (ts @ us) = display_calls sv L ts @ display_calls sv L us"
  by (simp add: display_calls_def)

lemma translate_text_calls: "snd (translate_text sv t L) = display_calls sv L [t]"
  by (simp add: display_calls_def)

lemma display_calls_en [simp]: "display_calls sv (py ''en'') ts = []"
  by (induction ts) (simp_all add: display_calls_def translate_text_def)

lemma display_calls_translate:
  "c \<in> set (display_calls sv L ts) \<Longrightarrow> L \<noteq> py ''en'' \<and> (\<exists>t \<in> set ts. c = CallTranslate t L)"
  by (induction ts) (auto simp: display_calls_def translate_text_def split: if_splits option.splits)

lemma admin_listing_calls:
  "\<exists>ts. set ts \<subseteq> set admin_texts \<and>
        calls (snd (admin_listing sv inp w)) =
          calls w @ display_calls sv (preferred_language (session w)) ts"
proof -
  let ?L = "preferred_language (session w)"
  have two: "\<exists>ts. set ts \<subseteq> set admin_texts \<and>
               calls w @ display_calls sv ?L [u] @ display_calls sv ?L [v] =
               calls w @ display_calls sv ?L ts"
    if "u \<in> set admin_texts" and "v \<in> set admin_texts" for u v
    using that by (intro exI [of _ "[u, v]"]) (simp add: display_calls_def)
  have one: "\<exists>ts. set ts \<subseteq> set admin_texts \<and>
               calls w @ display_calls sv ?L [u] = calls w @ display_calls sv ?L ts"
    if "u \<in> set admin_texts" for u
    using that by (intro exI [of _ "[u]"]) simp
  have m: "py ''Show all saved candidates (Admin View)'' \<in> set admin_texts"
    "py ''Saved Candidate Data:'' \<in> set admin_texts"
    "py ''No candidate data available yet.'' \<in> set admin_texts"
    by (simp_all add: admin_texts_def)
  show ?thesis
    using one [OF m(1)] two [OF m(1) m(2)] two [OF m(1) m(3)]
    by (auto simp: admin_listing_def Let_def split: sum.splits json.splits)
qed

lemma admin_listing_shown [simp]: "shown (snd (admin_listing sv inp w)) = shown w"
  by (simp add: admin_listing_def Let_def split: sum.splits json.splits)

lemma ask_question_blank:
  assumes "submit_answer inp" and "strip (text_area inp (current_answer (session w))) = []"
  shows "fst (ask_question sv inp i w) = Continue"
    and "session (snd (ask_question sv inp i w)) =
           (session w)\<lparr>current_answer := text_area inp (current_answer (session w))\<rparr>"
    and "disk (snd (ask_question sv inp i w)) = disk w"
    and "shown (snd (ask_question sv inp i w)) =
           shown w @ [Warning (fst (translate_text sv empty_answer_message
                                      (preferred_language (session w))))]"
    and "calls (snd (ask_question sv inp i w)) =
           calls w @ display_calls sv (preferred_language (session w))
             [questions (session w) ! i, py ''Question'', py ''Your Answer:'',
              py ''Submit Answer'', empty_answer_message]"
  using assms
  by (simp_all add: ask_question_def Let_def display_calls_def)

lemma blank_submit:
  assumes "phase_of s = INTERVIEWING" and "submit_answer inp"
    and "strip (text_area inp (current_answer s)) = []"
  shows "session (snd (interact sv inp (s, d))) =
           s\<lparr>preferred_language := lang_options (selected_lang inp),
             current_answer := text_area inp (current_answer s)\<rparr>"
    and "disk (snd (interact sv inp (s, d))) = d"
    and "shown (snd (interact sv inp (s, d))) =
           [Warning (fst (translate_text sv empty_answer_message
                            (lang_options (selected_lang inp))))]"
    and "\<exists>ts. set ts \<subseteq> set admin_texts \<and>
           calls (snd (interact sv inp (s, d))) =
           display_calls sv (lang_options (selected_lang inp))
             [questions s ! question_index s, py ''Question'', py ''Your Answer:'',
              py ''Submit Answer'', empty_answer_message] @
           display_calls sv (lang_options (selected_lang inp)) ts"
proof -
  let ?init = "\<lparr>session = s, disk = d, calls = [], shown = []\<rparr>"
  let ?sel = "snd (select_language inp ?init)"
  let ?L = "lang_options (selected_lang inp)"
  let ?aq = "ask_question sv inp (question_index s) ?sel"
  have ta: "text_area inp (current_answer (session ?sel)) = text_area inp (current_answer s)"
    by simp
  with assms have b: "strip (text_area inp (current_answer (session ?sel))) = []" by simp
  note aq = ask_question_blank [OF assms(2) b, of sv "question_index s"]
  have sc: "script sv inp ?init = and_then (ask_question sv inp (question_index s))
              (admin_listing sv inp) ?sel"
    using assms(1) script_asking [of ?init sv inp] by simp
  then have sc': "script sv inp ?init = admin_listing sv inp (snd ?aq)"
    using aq(1) by (simp add: and_then_Continue)
  have nr: "fst (script sv inp ?init) \<noteq> Rerun"
    using aq(1) by (simp add: sc and_then_admin_rerun)
  have i: "interact sv inp (s, d) = admin_listing sv inp (snd ?aq)"
    using nr sc' by (simp add: interact_no_rerun)
  show "session (snd (interact sv inp (s, d))) =
          s\<lparr>preferred_language := ?L, current_answer := text_area inp (current_answer s)\<rparr>"
    by (simp add: i aq ta)
  show "disk (snd (interact sv inp (s, d))) = d"
    by (simp add: i aq)
  show "shown (snd (interact sv inp (s, d))) =
          [Warning (fst (translate_text sv empty_answer_message ?L))]"
    by (simp add: i aq)
  from admin_listing_calls [of sv inp "snd ?aq"]
  obtain ts where ts: "set ts \<subseteq> set admin_texts"
    and "calls (snd (admin_listing sv inp (snd ?aq))) =
      calls (snd ?aq) @ display_calls sv (preferred_language (session (snd ?aq))) ts"
    by blast
  then have "calls (snd (interact sv inp (s, d))) =
      display_calls sv ?L [questions s ! question_index s, py ''Question'', py ''Your Answer:'',
               py ''Submit Answer'', empty_answer_message] @ display_calls sv ?L ts"
    by (simp add: i aq)
  with ts show "\<exists>ts. set ts \<subseteq> set admin_texts \<and>
           calls (snd (interact sv inp (s, d))) =
           display_calls sv ?L
             [questions s ! question_index s, py ''Question'', py ''Your Answer:'',
              py ''Submit Answer'', empty_answer_message] @
           display_calls sv (lang_options (selected_lang inp)) ts"
    by blast
qed

lemma blank_submit_calls:
  assumes "phase_of s = INTERVIEWING" and "submit_answer inp"
    and "strip (text_area inp (current_answer s)) = []"
    and "c \<in> set (calls (snd (interact sv inp (s, d))))"
  shows "lang_options (selected_lang inp) \<noteq> py ''en''"
    and "\<exists>t \<in> set (questions s ! question_index s # blank_submit_texts).
           c = CallTranslate t (lang_options (selected_lang inp))"
proof -
  let ?L = "lang_options (selected_lang inp)"
  let ?five = "[questions s ! question_index s, py ''Question'', py ''Your Answer:'',
                py ''Submit Answer'', empty_answer_message]"
  from blank_submit(4) [OF assms(1-3), of sv d]
  obtain ts where ts: "set ts \<subseteq> set admin_texts"
    and c: "calls (snd (interact sv inp (s, d))) =
              display_calls sv ?L ?five @ display_calls sv ?L ts"
    by blast
  from assms(4) have "c \<in> set (display_calls sv ?L (?five @ ts))"
    unfolding c display_calls_append by simp
  from display_calls_translate [OF this]
  have ne: "?L \<noteq> py ''en''" and "\<exists>t \<in> set (?five @ ts). c = CallTranslate t ?L"
    by blast+
  then obtain t where t: "t \<in> set (?five @ ts)" and e: "c = CallTranslate t ?L"
    by blast
  from t ts have "t \<in> set (questions s ! question_index s # blank_submit_texts)"
    by (auto simp: blank_submit_texts_def)
  with e show "\<exists>t \<in> set (questions s ! question_index s # blank_submit_texts).
           c = CallTranslate t ?L"
    by blast
  from ne show "?L \<noteq> py ''en''" .
qed

text \<open>
  C3. Submitting an answer that is empty after trimming, while a question is shown, leaves
  the session as it was: the profile, the questions, the question index, the
  conversation and the phase are unchanged (of the session state, only the buffer of the
  answer box takes the text typed, and the display language is the one selected in this
  run), and so is the store. Lines 154 and 155 are not run: no call reaches the
  sentiment scorer or the generator, and nothing is translated to \<open>en\<close>. The only calls
  are those that localize the texts this run displays, the question, the fixed labels
  and the retry prompt, to the display language. The retry prompt is shown, and is the
  only message.
\<close>

theorem blank_answer_rejected:
  assumes "phase_of s = INTERVIEWING" and "submit_answer inp"
    and "strip (text_area inp (current_answer s)) = []"
  shows "session (snd (interact sv inp (s, d))) =
           s\<lparr>preferred_language := lang_options (selected_lang inp),
             current_answer := text_area inp (current_answer s)\<rparr> \<and>
         candidate_info (session (snd (interact sv inp (s, d)))) = candidate_info s \<and>
         questions (session (snd (interact sv inp (s, d)))) = questions s \<and>
         question_index (session (snd (interact sv inp (s, d)))) = question_index s \<and>
         conversation (session (snd (interact sv inp (s, d)))) = conversation s \<and>
         phase_of (session (snd (interact sv inp (s, d)))) = INTERVIEWING \<and>
         disk (snd (interact sv inp (s, d))) = d \<and>
         shown (snd (interact sv inp (s, d))) =
           [Warning (fst (translate_text sv empty_answer_message
                            (lang_options (selected_lang inp))))] \<and>
         (\<forall>text. CallSentiment text \<notin> set (calls (snd (interact sv inp (s, d))))) \<and>
         (\<forall>prompt. CallLLM prompt \<notin> set (calls (snd (interact sv inp (s, d))))) \<and>
         (\<forall>text. CallTranslate text (py ''en'') \<notin> set (calls (snd (interact sv inp (s, d))))) \<and>
         (\<forall>c \<in> set (calls (snd (interact sv inp (s, d)))).
            \<exists>t \<in> set (questions s ! question_index s # blank_submit_texts).
              c = CallTranslate t (lang_options (selected_lang inp))) \<and>
         (selected_lang inp = English \<longrightarrow> calls (snd (interact sv inp (s, d))) = [])"
proof -
  let ?w = "snd (interact sv inp (s, d))"
  let ?L = "lang_options (selected_lang inp)"
  note b = blank_submit [OF assms, of sv d]
  note k = blank_submit_calls [OF assms, of _ sv d]
  have p: "phase_of (session ?w) = INTERVIEWING"
    using assms(1) by (simp add: b(1) phase_of_def split: if_splits)
  have f: "candidate_info (session ?w) = candidate_info s" "questions (session ?w) = questions s"
    "question_index (session ?w) = question_index s" "conversation (session ?w) = conversation s"
    by (simp_all add: b(1))
  have c1: "\<forall>text. CallSentiment text \<notin> set (calls ?w)"
    using k(2) by fastforce
  have c2: "\<forall>prompt. CallLLM prompt \<notin> set (calls ?w)"
    using k(2) by fastforce
  have c3: "\<forall>text. CallTranslate text (py ''en'') \<notin> set (calls ?w)"
  proof (intro allI notI)
    fix tx
    assume m: "CallTranslate tx (py ''en'') \<in> set (calls ?w)"
    from k(2) [OF m] have "?L = py ''en''" by auto
    with k(1) [OF m] show False by simp
  qed
  have c4: "\<forall>c \<in> set (calls ?w).
      \<exists>t \<in> set (questions s ! question_index s # blank_submit_texts). c = CallTranslate t ?L"
    using k(2) by blast
  have c5: "selected_lang inp = English \<longrightarrow> calls ?w = []"
  proof
    assume "selected_lang inp = English"
    then have "?L = py ''en''" by simp
    with k(1) have "\<forall>c. c \<notin> set (calls ?w)" by blast
    then show "calls ?w = []" by (cases "calls ?w") auto
  qed
  from b(1,2,3) f p c1 c2 c3 c4 c5 show ?thesis by blast
qed

theorem blank_answer_rejected_witness:
  "phase_of asking_session = INTERVIEWING \<and> submit_answer answer_blank \<and>
   strip (text_area answer_blank (current_answer asking_session)) = [] \<and>
   session (snd (interact failing_translator answer_blank (asking_session, no_file))) =
     asking_session\<lparr>current_answer := py ''  ''\<rparr> \<and>
   conversation (session (snd (interact failing_translator answer_blank
     (asking_session, no_file)))) = [] \<and>
   question_index (session (snd (interact failing_translator answer_blank
     (asking_session, no_file)))) = 0 \<and>
   disk (snd (interact failing_translator answer_blank (asking_session, no_file))) = no_file \<and>
   shown (snd (interact failing_translator answer_blank (asking_session, no_file))) =
     [Warning empty_answer_message]"
proof -
  have p: "phase_of asking_session = INTERVIEWING"
    by (simp add: phase_of_def asking_session_def)
  have s: "submit_answer answer_blank" by (simp add: answer_blank_def idle_visit_def)
  have t: "strip (text_area answer_blank (current_answer asking_session)) = []"
    by (simp add: text_area_def answer_blank_def idle_visit_def strip_def isspace_def py_def)
  have l: "lang_options (selected_lang answer_blank) = py ''te''"
    "text_area answer_blank (current_answer asking_session) = py ''  ''"
    by (simp_all add: answer_blank_def idle_visit_def text_area_def)
  have e: "asking_session\<lparr>preferred_language := py ''te'', current_answer := py ''  ''\<rparr> =
           asking_session\<lparr>current_answer := py ''  ''\<rparr>"
    by (simp add: asking_session_def)
  have ne: "py ''te'' \<noteq> py ''en''" by (simp add: py_def)
  have w: "fst (translate_text failing_translator empty_answer_message (py ''te'')) =
             empty_answer_message"
    using ne by (simp add: translate_text_def failing_translator_def)
  have c: "conversation asking_session = []" "question_index asking_session = 0"
    by (simp_all add: asking_session_def)
  from blank_answer_rejected [OF p s t, of failing_translator no_file] p s t l e w c
  show ?thesis by simp
qed

end
